theory Spec2Isabelle
  imports
    Complex_Main
    "HOL-Library.Word"
    "HOL-Library.Log_Nat"
    "HOL-Library.Char_ord"
    "HOL-Library.List_Lexorder"
    "HOL-Library.Product_Lexorder"
begin

unbundle bit_operations_syntax

section \<open>JavaScript values used by the sources\<close>

subsection \<open>Numbers\<close>

text \<open>
  A finite JavaScript number is an IEEE-754 double. The sources multiply, subtract and
  divide small counts by the literals \<open>0.3\<close>, \<open>0.5\<close> and \<open>0.8\<close>, so the rounding
  of every such operation is written out: a finite double is the rational it denotes, and
  \<open>toDouble\<close> rounds a rational to the nearest double (53 significant bits, ties to even).
  Overflow and subnormal numbers are out of reach of the values used here (counts and
  ratios between \<open>2^-10\<close> and \<open>2^53\<close>) and are not modelled.
\<close>

definition pow2 :: "int \<Rightarrow> rat" where
  "pow2 k = (if 0 \<le> k then 2 ^ nat k else 1 / 2 ^ nat (- k))"

definition roundHalfEven :: "rat \<Rightarrow> int" where
  "roundHalfEven x =
     (let f = \<lfloor>x\<rfloor>; r = x - of_int f
      in if r < 1 / 2 then f
         else if 1 / 2 < r then f + 1
         else if even f then f else f + 1)"

definition binaryExponent :: "rat \<Rightarrow> int" where
  "binaryExponent q =
     (let (a, b) = quotient_of q;
          e0 = bitlen a - bitlen b
      in if pow2 e0 \<le> q then e0 else e0 - 1)"

definition toDouble :: "rat \<Rightarrow> rat" where
  "toDouble q =
     (if q = 0 then 0
      else let p = \<bar>q\<bar>;
               e = binaryExponent p;
               m = roundHalfEven (p * pow2 (52 - e))
           in sgn q * of_int m * pow2 (e - 52))"

text \<open>The arithmetic operators of the language on doubles, and \<open>Math.floor\<close>.\<close>

definition js_sub :: "rat \<Rightarrow> rat \<Rightarrow> rat" where
  "js_sub x y = toDouble (x - y)"

definition js_mul :: "rat \<Rightarrow> rat \<Rightarrow> rat" where
  "js_mul x y = toDouble (x * y)"

definition js_div :: "rat \<Rightarrow> rat \<Rightarrow> rat" where
  "js_div x y = toDouble (x / y)"

definition Math_floor :: "rat \<Rightarrow> int" where
  "Math_floor x = \<lfloor>x\<rfloor>"

subsection \<open>Strings\<close>

text \<open>
  Strings are lists of characters, a \<open>char\<close> being one UTF-16 code unit of the source
  string. The model covers the strings whose code units are all below 256 (the Latin-1
  range); on these, \<open>toLowerCase\<close>, \<open>trim\<close> and the regular-expression class
  \<open>\s\<close> are written out as the language defines them.
\<close>

definition truthy :: "string option \<Rightarrow> bool" where
  "truthy v = (case v of None \<Rightarrow> False | Some s \<Rightarrow> s \<noteq> [])"

definition truthyNum :: "int option \<Rightarrow> bool" where
  "truthyNum v = (case v of None \<Rightarrow> False | Some n \<Rightarrow> n \<noteq> 0)"

definition charCode :: "char \<Rightarrow> nat" where
  "charCode c = of_char c"

text \<open>\<open>String.prototype.toLowerCase\<close> on one code unit: the letters \<open>A\<close> to \<open>Z\<close> and
  the Latin-1 capitals U+00C0 to U+00DE (U+00D7, the multiplication sign, is no letter)
  move up by 32; every other code unit below 256 stays.\<close>

definition toLowerChar :: "char \<Rightarrow> char" where
  "toLowerChar c =
     (let n = charCode c
      in if (65 \<le> n \<and> n \<le> 90) \<or> (192 \<le> n \<and> n \<le> 222 \<and> n \<noteq> 215)
         then char_of (n + 32) else c)"

definition toLowerCase :: "string \<Rightarrow> string" where
  "toLowerCase s = map toLowerChar s"

text \<open>White space as \<open>\s\<close> and \<open>trim\<close> see it: tab, line feed, vertical tab, form feed,
  carriage return, space and the no-break space U+00A0.\<close>

definition isSpace :: "char \<Rightarrow> bool" where
  "isSpace c = (charCode c \<in> {9, 10, 11, 12, 13, 32, 160})"

text \<open>The double quote, for selector texts.\<close>

definition dquote :: string where
  "dquote = [CHR 0x22]"

fun startsWith :: "string \<Rightarrow> string \<Rightarrow> bool" where
  "startsWith s [] = True"
| "startsWith [] (q # qs) = False"
| "startsWith (c # cs) (q # qs) = (c = q \<and> startsWith cs qs)"

fun includes_str :: "string \<Rightarrow> string \<Rightarrow> bool" where
  "includes_str [] q = (q = [])"
| "includes_str (c # cs) q = (startsWith (c # cs) q \<or> includes_str cs q)"

text \<open>\<open>str.split(/\s+/)\<close>: the pieces between maximal runs of white space; a string
  that starts or ends with white space yields an empty first or last piece.\<close>

fun splitWs :: "string \<Rightarrow> string \<Rightarrow> bool \<Rightarrow> string list" where
  "splitWs [] cur inSep = [rev cur]"
| "splitWs (c # cs) cur inSep =
     (if isSpace c then (if inSep then splitWs cs cur True else rev cur # splitWs cs [] True)
      else splitWs cs (c # cur) False)"

definition splitWhitespace :: "string \<Rightarrow> string list" where
  "splitWhitespace s = splitWs s [] False"

text \<open>\<open>Number.prototype.toString(radix)\<close> on integers.\<close>

definition digitChar :: "nat \<Rightarrow> char" where
  "digitChar d = ''0123456789abcdefghijklmnopqrstuvwxyz'' ! d"

function natToString :: "nat \<Rightarrow> nat \<Rightarrow> string" where
  "natToString b n =
     (if n < b \<or> b < 2 then [digitChar n] else natToString b (n div b) @ [digitChar (n mod b)])"
  by pat_completeness auto
termination
  by (relation "measure snd") auto

definition intToString :: "nat \<Rightarrow> int \<Rightarrow> string" where
  "intToString b i = (if i < 0 then CHR ''-'' # natToString b (nat (- i)) else natToString b (nat i))"

subsection \<open>Maps\<close>

text \<open>A \<open>Map\<close> (or an object used as one) is a list of entries with distinct keys, in
  insertion order; \<open>map_of\<close> is \<open>get\<close>.\<close>

definition mapSet :: "'k \<Rightarrow> 'v \<Rightarrow> ('k \<times> 'v) list \<Rightarrow> ('k \<times> 'v) list" where
  "mapSet k v m =
     (if k \<in> fst ` set m then map (\<lambda>(k', v'). if k' = k then (k', v) else (k', v')) m
      else m @ [(k, v)])"

definition mapDelete :: "'k \<Rightarrow> ('k \<times> 'v) list \<Rightarrow> ('k \<times> 'v) list" where
  "mapDelete k m = filter (\<lambda>(k', v'). k' \<noteq> k) m"

text \<open>\<open>str.trim()\<close>.\<close>

definition trim :: "string \<Rightarrow> string" where
  "trim s = rev (dropWhile isSpace (rev (dropWhile isSpace s)))"

section \<open>Persistence layer: \<open>IndexedDBManager\<close> and its Chrome-storage fallback\<close>

text \<open>Module constants of \<open>IndexedDBManager\<close>.\<close>

definition DUPLICATE_TTL_MS :: int where
  "DUPLICATE_TTL_MS = 30 * 60 * 1000"

definition MAX_DB_SIZE :: rat where
  "MAX_DB_SIZE = 50 * 1024 * 1024"

definition CLEANUP_THRESHOLD :: nat where
  "CLEANUP_THRESHOLD = 1000"

text \<open>
  \<open>scanData\<close> is the object a caller passes to \<open>storeScan\<close>: every property may be
  missing (\<open>None\<close>). \<open>scan\<close> is a sanitized object as it is stored: \<open>sanitizeScanData\<close>
  gives it an id, a timestamp, \<open>createdAt\<close> and \<open>version\<close>.
\<close>

record scanData =
  sd_id :: "string option"
  sd_url :: "string option"
  sd_title :: "string option"
  sd_timestamp :: "int option"
  sd_snippet :: "string option"
  sd_platform :: "string option"
  sd_password :: "string option"
  sd_token :: "string option"
  sd_apiKey :: "string option"
  sd_cookie :: "string option"

record scan =
  scanId :: string
  url :: "string option"
  title :: "string option"
  timestamp :: int
  snippet :: "string option"
  platform :: "string option"
  createdAt :: string
  version :: string
  password :: "string option"
  token :: "string option"
  apiKey :: "string option"
  cookie :: "string option"

datatype error = Error string | DBError string string

datatype openOutcome = OpenSuccess | OpenError | OpenTimeout

datatype idbOp = OpGetScansByUrl | OpInsert | OpGetScans | OpCount | OpCleanup | OpClear

datatype chromeOp = ChromeGet | ChromeSet | ChromeRemove

text \<open>The promise stored by \<open>init()\<close>.\<close>

datatype promiseState = NotStarted | Pending | Resolved | Rejected error

text \<open>
  What awaiting an asynchronous method gives: it returns a value, it raises (the promise
  rejects), or the promise never settles and the caller never resumes. Methods that cannot
  hang are given the type \<open>error + 'a\<close>.
\<close>

datatype 'a outcome = Returns 'a | Raises error | Hangs

definition settled :: "error + 'a \<Rightarrow> 'a outcome" where
  "settled r = (case r of Inl err \<Rightarrow> Raises err | Inr x \<Rightarrow> Returns x)"

text \<open>
  What a call reads from outside the manager: the clock (\<open>Date.now()\<close>, taken as constant
  during one call), the ISO rendering of the clock, the nine random characters of
  \<open>Math.random().toString(36).substr(2, 9)\<close>, the lengths of \<open>JSON.stringify\<close>, the
  outcome of \<open>indexedDB.open\<close>, and which IndexedDB requests and which
  \<open>chrome.storage.local\<close> calls fail during the call.
\<close>

record env =
  now :: int
  nowISO :: string
  random9 :: string
  jsonLength :: "scanData \<Rightarrow> nat"
  jsonLengthScans :: "scan list \<Rightarrow> nat"
  openResult :: openOutcome
  idbFails :: "idbOp \<Rightarrow> bool"
  chromeFails :: "chromeOp \<Rightarrow> bool"

text \<open>
  The manager: \<open>idb\<close> is the content of the object store \<open>scans\<close> (in insertion order),
  \<open>dbOpen\<close> says that \<open>this.db\<close> is set, \<open>initializationPromise\<close> is the state of
  the promise that \<open>init()\<close> stores, \<open>chromeStore\<close> is the value under the fallback's
  storage key in \<open>chrome.storage.local\<close>.
\<close>

record manager =
  idb :: "scan list"
  dbOpen :: bool
  initialized :: bool
  initializationPromise :: promiseState
  useFallback :: bool
  fallbackInitialized :: bool
  chromeStore :: "scan list option"

subsection \<open>\<open>ScanValidator\<close>\<close>

text \<open>The argument of \<open>validateScanData\<close> is an object by its type, so the first check of
  the source cannot fail; the empty string counts as a missing url or title.\<close>

definition validateScanData :: "env \<Rightarrow> scanData \<Rightarrow> error + bool" where
  "validateScanData e d =
     (if \<not> truthy (sd_url d) \<and> \<not> truthy (sd_title d)
      then Inl (Error ''Scan data must contain url or title'')
      else if jsonLength e d > 5 * 1024 * 1024
      then Inl (Error ''Scan data too large'')
      else Inr True)"

definition generateScanId :: "env \<Rightarrow> string" where
  "generateScanId e = ''scan_'' @ intToString 10 (now e) @ ''_'' @ random9 e"

definition dropSensitive :: "string option \<Rightarrow> string option" where
  "dropSensitive v = (if truthy v then None else v)"

definition sanitizeScanData :: "env \<Rightarrow> scanData \<Rightarrow> scan" where
  "sanitizeScanData e d =
     \<lparr> scanId = (if truthy (sd_id d) then the (sd_id d) else generateScanId e),
       url = sd_url d,
       title = sd_title d,
       timestamp = (if truthyNum (sd_timestamp d) then the (sd_timestamp d) else now e),
       snippet = sd_snippet d,
       platform = sd_platform d,
       createdAt = nowISO e,
       version = ''1.0'',
       password = dropSensitive (sd_password d),
       token = dropSensitive (sd_token d),
       apiKey = dropSensitive (sd_apiKey d),
       cookie = dropSensitive (sd_cookie d) \<rparr>"

subsection \<open>\<open>ChromeStorageFallback\<close>\<close>

text \<open>\<open>scans.sort((a, b) => b.timestamp - a.timestamp)\<close>: a stable sort, newest first.\<close>

definition sortNewestFirst :: "scan list \<Rightarrow> scan list" where
  "sortNewestFirst xs = sort_key (\<lambda>s. - timestamp s) xs"

definition fallback_init :: "manager \<Rightarrow> manager" where
  "fallback_init m = m\<lparr>fallbackInitialized := True\<rparr>"

definition fallbackList :: "manager \<Rightarrow> scan list" where
  "fallbackList m = (case chromeStore m of None \<Rightarrow> [] | Some l \<Rightarrow> l)"

definition fallback_storeScan :: "env \<Rightarrow> scanData \<Rightarrow> manager \<Rightarrow> (error + string) \<times> manager" where
  "fallback_storeScan e d m =
     (if chromeFails e ChromeGet
      then (Inl (DBError ''Chrome storage read failed'' ''storeScan''), m)
      else
        let scans = fallbackList m;
            sanitizedData = sanitizeScanData e d;
            recentScans = take 500 (sortNewestFirst (scans @ [sanitizedData]))
        in if chromeFails e ChromeSet
           then (Inl (DBError ''Chrome storage write failed'' ''storeScan''), m)
           else (Inr (scanId sanitizedData), m\<lparr>chromeStore := Some recentScans\<rparr>))"

definition matchesQuery :: "string \<Rightarrow> string option \<Rightarrow> bool" where
  "matchesQuery q v = (truthy v \<and> includes_str (toLowerCase (the v)) q)"

definition fallback_getScans :: "env \<Rightarrow> string \<Rightarrow> manager \<Rightarrow> error + scan list" where
  "fallback_getScans e query m =
     (if chromeFails e ChromeGet
      then Inl (DBError ''Chrome storage read failed'' ''getScans'')
      else
        let scans = fallbackList m;
            q = toLowerCase query;
            scans1 = (if query \<noteq> []
                      then filter (\<lambda>s. matchesQuery q (title s) \<or> matchesQuery q (url s)
                                        \<or> matchesQuery q (snippet s)) scans
                      else scans)
        in Inr (sortNewestFirst scans1))"


subsection \<open>\<open>IndexedDBManager\<close>\<close>

text \<open>
  \<open>index.getAll()\<close> on the index \<open>timestamp\<close> returns the records in ascending order
  of the index key, records with equal keys in ascending order of the primary key \<open>id\<close>;
  \<open>index.getAll(url)\<close> on the index \<open>url\<close> returns the records with that url in
  ascending order of the primary key.
\<close>

definition timestampIndex_getAll :: "scan list \<Rightarrow> scan list" where
  "timestampIndex_getAll xs = sort_key (\<lambda>s. (timestamp s, scanId s)) xs"

definition urlIndex_getAll :: "string \<Rightarrow> scan list \<Rightarrow> scan list" where
  "urlIndex_getAll u xs = filter (\<lambda>s. url s = Some u) (sort_key scanId xs)"

text \<open>
  \<open>openDatabase\<close>. On a success event the promise resolves and on an error event it
  rejects. \<open>OpenTimeout\<close> is a request that delivers neither event: after 10 s the timer
  finds it pending and calls \<open>request.onerror\<close>; that handler builds its message from
  \<open>request.error\<close>, and reading \<open>error\<close> of a request that is not done throws an
  \<open>InvalidStateError\<close>. The exception leaves the handler and the timer callback, so
  neither \<open>reject\<close> is reached and the promise stays pending. (A request that delivers
  its event later than 10 s is therefore \<open>OpenSuccess\<close> or \<open>OpenError\<close>.)
\<close>

definition openDatabase :: "env \<Rightarrow> manager \<Rightarrow> unit outcome \<times> manager" where
  "openDatabase e m =
     (case openResult e of
        OpenSuccess \<Rightarrow> (Returns (), m\<lparr>dbOpen := True\<rparr>)
      | OpenError \<Rightarrow> (Raises (DBError ''Database open failed'' ''openDatabase''), m)
      | OpenTimeout \<Rightarrow> (Hangs, m))"

definition getScanCount :: "env \<Rightarrow> manager \<Rightarrow> error + nat" where
  "getScanCount e m =
     (if \<not> dbOpen m \<or> idbFails e OpCount then Inl (Error ''count failed'')
      else Inr (length (idb m)))"

definition keepCountOf :: "nat \<Rightarrow> rat \<Rightarrow> nat" where
  "keepCountOf n ratio = nat (Math_floor (js_mul (of_nat n) (js_sub 1 ratio)))"

definition cleanupOldRecords :: "env \<Rightarrow> rat \<Rightarrow> manager \<Rightarrow> (error + nat) \<times> manager" where
  "cleanupOldRecords e ratio m =
     (if \<not> dbOpen m then (Inl (DBError ''Cleanup setup failed'' ''cleanupOldRecords''), m)
      else if idbFails e OpCleanup
      then (Inl (DBError ''Cleanup query failed'' ''cleanupOldRecords''), m)
      else
        let scans = timestampIndex_getAll (idb m)
        in if of_nat (length scans) \<le> js_mul (of_nat CLEANUP_THRESHOLD) (1 / 2)
           then (Inr 0, m)
           else
             let keepCount = keepCountOf (length scans) ratio;
                 scansToDelete = drop keepCount scans
             in (Inr (length scansToDelete),
                 m\<lparr>idb := filter (\<lambda>s. scanId s \<notin> set (map scanId scansToDelete)) (idb m)\<rparr>))"

definition slice :: "nat \<Rightarrow> nat \<Rightarrow> 'a list \<Rightarrow> 'a list" where
  "slice start end xs = take (end - start) (drop start xs)"

text \<open>The query of \<open>getScans\<close> on the primary store (the promise it builds).\<close>

definition idb_getScans :: "env \<Rightarrow> string \<Rightarrow> nat \<Rightarrow> nat \<Rightarrow> manager \<Rightarrow> error + scan list" where
  "idb_getScans e query limit offset m =
     (if \<not> dbOpen m then Inl (DBError ''Query setup failed'' ''getScans'')
      else if idbFails e OpGetScans then Inl (DBError ''Query failed'' ''getScans'')
      else
        let scans = timestampIndex_getAll (idb m);
            q = toLowerCase query;
            scans1 = (if query \<noteq> []
                      then filter (\<lambda>s. matchesQuery q (title s) \<or> matchesQuery q (url s)
                                        \<or> matchesQuery q (snippet s) \<or> matchesQuery q (platform s)) scans
                      else scans)
        in Inr (slice offset (offset + limit) (sortNewestFirst scans1)))"

text \<open>
  \<open>getScans\<close>, \<open>estimateDBSize\<close> and \<open>performMaintenance\<close> reach
  \<open>if (!this.initialized) await this.init()\<close>. They are first defined for any behaviour
  \<open>ini\<close> of that \<open>init()\<close> call, because \<open>_initialize\<close> itself runs
  \<open>performMaintenance\<close> before it sets \<open>initialized\<close>.
\<close>

definition getScans_with ::
  "(manager \<Rightarrow> unit outcome \<times> manager) \<Rightarrow> env \<Rightarrow> string \<Rightarrow> nat \<Rightarrow> nat \<Rightarrow> manager
     \<Rightarrow> scan list outcome \<times> manager" where
  "getScans_with ini e query limit offset m =
     (case (if \<not> initialized m then ini m else (Returns (), m)) of
        (Raises err, m1) \<Rightarrow> (Raises err, m1)
      | (Hangs, m1) \<Rightarrow> (Hangs, m1)
      | (Returns x, m1) \<Rightarrow>
          if useFallback m1
          then (case fallback_getScans e query m1 of
                  Inl err \<Rightarrow> (Raises err, m1)
                | Inr scans \<Rightarrow> (Returns (slice offset (offset + limit) scans), m1))
          else (settled (idb_getScans e query limit offset m1), m1))"

definition estimateDBSize_with ::
  "(manager \<Rightarrow> unit outcome \<times> manager) \<Rightarrow> env \<Rightarrow> manager \<Rightarrow> nat outcome \<times> manager" where
  "estimateDBSize_with ini e m =
     (case getScans_with ini e [] 1000 0 m of
        (Raises err, m1) \<Rightarrow> (Raises err, m1)
      | (Hangs, m1) \<Rightarrow> (Hangs, m1)
      | (Returns scans, m1) \<Rightarrow> (Returns (jsonLengthScans e scans), m1))"

text \<open>\<open>performMaintenance\<close> catches every error; it returns nothing, or never resumes.\<close>

definition performMaintenance_with ::
  "(manager \<Rightarrow> unit outcome \<times> manager) \<Rightarrow> env \<Rightarrow> manager \<Rightarrow> unit outcome \<times> manager" where
  "performMaintenance_with ini e m =
     (if useFallback m then (Returns (), m)
      else
        case getScanCount e m of
          Inl err \<Rightarrow> (Returns (), m)
        | Inr scanCount \<Rightarrow>
            (case (if scanCount > CLEANUP_THRESHOLD
                   then cleanupOldRecords e (toDouble (3 / 10)) m else (Inr 0, m)) of
               (Inl err, m1) \<Rightarrow> (Returns (), m1)
             | (Inr n, m1) \<Rightarrow>
                 (case estimateDBSize_with ini e m1 of
                    (Raises err, m2) \<Rightarrow> (Returns (), m2)
                  | (Hangs, m2) \<Rightarrow> (Hangs, m2)
                  | (Returns approxSize, m2) \<Rightarrow>
                      if of_nat approxSize > js_mul MAX_DB_SIZE (toDouble (4 / 5))
                      then (Returns (), snd (cleanupOldRecords e (1 / 2) m2))
                      else (Returns (), m2))))"

text \<open>
  \<open>init()\<close> called while the promise of \<open>_initialize\<close> exists returns that promise.
  While it is pending, the caller is awaited by \<open>_initialize\<close> itself, so neither resumes.
\<close>

definition awaitInitializationPromise :: "manager \<Rightarrow> unit outcome \<times> manager" where
  "awaitInitializationPromise m =
     (case initializationPromise m of
        Resolved \<Rightarrow> (Returns (), m)
      | Rejected err \<Rightarrow> (Raises err, m)
      | Pending \<Rightarrow> (Hangs, m)
      | NotStarted \<Rightarrow> (Hangs, m))"

text \<open>\<open>_initialize\<close>, as \<open>init()\<close> runs it (the promise is stored and pending);
  \<open>fallbackManager.init()\<close> cannot fail, so the inner handler
  (\<open>All storage options failed\<close>) is never entered.\<close>

definition initialize :: "env \<Rightarrow> manager \<Rightarrow> unit outcome \<times> manager" where
  "initialize e m =
     (if initialized m then (Returns (), m)
      else
        case openDatabase e m of
          (Returns u, m1) \<Rightarrow>
            (case performMaintenance_with awaitInitializationPromise e m1 of
               (Returns x, m2) \<Rightarrow> (Returns (), m2\<lparr>initialized := True, useFallback := False\<rparr>)
             | (Raises err, m2) \<Rightarrow>
                 (Returns (), (fallback_init m2)\<lparr>initialized := True, useFallback := True\<rparr>)
             | (Hangs, m2) \<Rightarrow> (Hangs, m2))
        | (Raises err, m1) \<Rightarrow>
            (Returns (), (fallback_init m1)\<lparr>initialized := True, useFallback := True\<rparr>)
        | (Hangs, m1) \<Rightarrow> (Hangs, m1))"

definition init :: "env \<Rightarrow> manager \<Rightarrow> unit outcome \<times> manager" where
  "init e m =
     (case initializationPromise m of
        NotStarted \<Rightarrow>
          (case initialize e (m\<lparr>initializationPromise := Pending\<rparr>) of
             (Returns u, m1) \<Rightarrow> (Returns (), m1\<lparr>initializationPromise := Resolved\<rparr>)
           | (Raises err, m1) \<Rightarrow> (Raises err, m1\<lparr>initializationPromise := Rejected err\<rparr>)
           | (Hangs, m1) \<Rightarrow> (Hangs, m1))
      | Pending \<Rightarrow> (Hangs, m)
      | Resolved \<Rightarrow> (Returns (), m)
      | Rejected err \<Rightarrow> (Raises err, m))"

definition getScans :: "env \<Rightarrow> string \<Rightarrow> nat \<Rightarrow> nat \<Rightarrow> manager \<Rightarrow> scan list outcome \<times> manager" where
  "getScans e query limit offset m = getScans_with (init e) e query limit offset m"

definition performMaintenance :: "env \<Rightarrow> manager \<Rightarrow> unit outcome \<times> manager" where
  "performMaintenance e m = performMaintenance_with (init e) e m"

definition getScansByUrl :: "env \<Rightarrow> string \<Rightarrow> nat \<Rightarrow> manager \<Rightarrow> scan list outcome \<times> manager" where
  "getScansByUrl e u limit m =
     (case (if \<not> initialized m then init e m else (Returns (), m)) of
        (Raises err, m1) \<Rightarrow> (Raises err, m1)
      | (Hangs, m1) \<Rightarrow> (Hangs, m1)
      | (Returns x, m1) \<Rightarrow>
          if \<not> dbOpen m1 then (Raises (DBError ''URL query setup failed'' ''getScansByUrl''), m1)
          else if idbFails e OpGetScansByUrl
          then (Raises (DBError ''URL query failed'' ''getScansByUrl''), m1)
          else (Returns (take limit (sortNewestFirst (urlIndex_getAll u (idb m1)))), m1))"

text \<open>\<open>calculateSimilarity\<close>: the sets of lower-cased, white-space separated words of
  the two titles; the size of their intersection divided by the size of their union.\<close>

definition tokenSet :: "string \<Rightarrow> string set" where
  "tokenSet s = set (splitWhitespace (toLowerCase s))"

definition calculateSimilarity :: "string \<Rightarrow> string \<Rightarrow> rat" where
  "calculateSimilarity str1 str2 =
     (let set1 = tokenSet str1; set2 = tokenSet str2;
          intersection = {x \<in> set1. x \<in> set2};
          union = set1 \<union> set2
      in js_div (of_nat (card intersection)) (of_nat (card union)))"

definition isSubstantialDuplicate :: "scan \<Rightarrow> scanData \<Rightarrow> bool" where
  "isSubstantialDuplicate existingScan newScan =
     (if url existingScan \<noteq> sd_url newScan then False
      else if truthy (title existingScan) \<and> truthy (sd_title newScan)
      then calculateSimilarity (the (title existingScan)) (the (sd_title newScan)) > toDouble (4 / 5)
      else True)"

text \<open>\<open>checkForDuplicate\<close>: the loop returns the id of the first recent scan that is in
  the time window and a substantial duplicate; a failing query is caught and gives \<open>null\<close>.\<close>

definition inDuplicateWindow :: "env \<Rightarrow> scanData \<Rightarrow> scan \<Rightarrow> bool" where
  "inDuplicateWindow e d s = (now e - timestamp s < DUPLICATE_TTL_MS \<and> isSubstantialDuplicate s d)"

definition checkForDuplicate :: "env \<Rightarrow> scanData \<Rightarrow> manager \<Rightarrow> string option outcome \<times> manager" where
  "checkForDuplicate e d m =
     (if \<not> truthy (sd_url d) then (Returns None, m)
      else
        case getScansByUrl e (the (sd_url d)) 5 m of
          (Raises err, m1) \<Rightarrow> (Returns None, m1)
        | (Hangs, m1) \<Rightarrow> (Hangs, m1)
        | (Returns recentScans, m1) \<Rightarrow>
            (case find (inDuplicateWindow e d) recentScans of
               None \<Rightarrow> (Returns None, m1)
             | Some s \<Rightarrow> (Returns (Some (scanId s)), m1)))"

text \<open>\<open>store.add\<close> fails with a constraint error when the key is already present.\<close>

definition insertScan :: "env \<Rightarrow> scan \<Rightarrow> manager \<Rightarrow> (error + string) \<times> manager" where
  "insertScan e s m =
     (if \<not> dbOpen m then (Inl (DBError ''Transaction setup failed'' ''insertScan''), m)
      else if idbFails e OpInsert \<or> scanId s \<in> set (map scanId (idb m))
      then (Inl (DBError ''Insert failed'' ''insertScan''), m)
      else (Inr (scanId s), m\<lparr>idb := idb m @ [s]\<rparr>))"

text \<open>The handler of \<open>storeScan\<close>: switch to the fallback and store there.\<close>

definition storeScan_catch :: "env \<Rightarrow> scanData \<Rightarrow> manager \<Rightarrow> string outcome \<times> manager" where
  "storeScan_catch e d m =
     (case fallback_storeScan e d ((fallback_init m)\<lparr>useFallback := True\<rparr>) of
        (Inr i, m1) \<Rightarrow> (Returns i, m1)
      | (Inl fallbackError, m1) \<Rightarrow>
          (Raises (DBError ''All storage methods failed'' ''storeScan''), m1))"

text \<open>The \<open>try\<close> block of \<open>storeScan\<close> with its handler.\<close>

definition storeScan_primary :: "env \<Rightarrow> scanData \<Rightarrow> manager \<Rightarrow> string outcome \<times> manager" where
  "storeScan_primary e d m =
     (case checkForDuplicate e d m of
        (Raises err, m1) \<Rightarrow> storeScan_catch e d m1
      | (Hangs, m1) \<Rightarrow> (Hangs, m1)
      | (Returns duplicateId, m1) \<Rightarrow>
          if truthy duplicateId then (Returns (the duplicateId), m1)
          else
            case insertScan e (sanitizeScanData e d) m1 of
              (Inl err, m2) \<Rightarrow> storeScan_catch e d m2
            | (Inr newId, m2) \<Rightarrow>
                (case performMaintenance e m2 of
                   (Returns x, m3) \<Rightarrow> (Returns newId, m3)
                 | (Raises err, m3) \<Rightarrow> storeScan_catch e d m3
                 | (Hangs, m3) \<Rightarrow> (Hangs, m3)))"

definition storeScan :: "env \<Rightarrow> scanData \<Rightarrow> manager \<Rightarrow> string outcome \<times> manager" where
  "storeScan e d m =
     (case (if \<not> initialized m then init e m else (Returns (), m)) of
        (Raises err, m1) \<Rightarrow> (Raises err, m1)
      | (Hangs, m1) \<Rightarrow> (Hangs, m1)
      | (Returns x, m1) \<Rightarrow>
          (case validateScanData e d of
             Inl err \<Rightarrow> (Raises err, m1)
           | Inr ok \<Rightarrow>
               if useFallback m1 then (case fallback_storeScan e d m1 of (r, m2) \<Rightarrow> (settled r, m2))
               else storeScan_primary e d m1))"



text \<open>A manager as its constructor leaves it, over the given stored contents.\<close>

definition newManager :: "scan list \<Rightarrow> scan list option \<Rightarrow> manager" where
  "newManager stored chromeContent =
     \<lparr> idb = stored, dbOpen = False, initialized = False, initializationPromise = NotStarted,
       useFallback = False, fallbackInitialized = False, chromeStore = chromeContent \<rparr>"

subsection \<open>Sequences of calls on the manager\<close>




section \<open>\<open>StorageManager\<close>: the cached wrapper of \<open>chrome.storage.local\<close>\<close>

text \<open>
  Stored values are kept abstract (type \<open>'v\<close>). \<open>sm_items\<close> is the content of
  \<open>chrome.storage.local\<close>, \<open>sm_cache\<close> the module's \<open>cache\<close> map; both keep the
  order of their entries.
\<close>

record 'v cacheItem =
  ci_value :: 'v
  ci_timestamp :: int
  ci_version :: nat
  ci_ttl :: "int option"

record 'v storageManager =
  sm_items :: "(string \<times> 'v) list"
  sm_cache :: "(string \<times> 'v cacheItem) list"

record storageEnv =
  se_now :: int
  se_lastError :: "string option"

text \<open>\<open>chrome.storage.local.get(null, callback)\<close> wrapped in a promise.\<close>

definition chromeGetAll :: "storageEnv \<Rightarrow> 'v storageManager \<Rightarrow> error + (string \<times> 'v) list" where
  "chromeGetAll e st =
     (case se_lastError e of Some msg \<Rightarrow> Inl (Error msg) | None \<Rightarrow> Inr (sm_items st))"

definition getAll :: "storageEnv \<Rightarrow> 'v storageManager
    \<Rightarrow> (error + (string \<times> 'v) list) \<times> 'v storageManager" where
  "getAll e st =
     (case chromeGetAll e st of
        Inr items \<Rightarrow>
          (Inr items,
           st\<lparr>sm_cache := fold (\<lambda>(key, v) c.
                mapSet key \<lparr>ci_value = v, ci_timestamp = se_now e, ci_version = 1, ci_ttl = None\<rparr> c)
              items (sm_cache st)\<rparr>)
      | Inl err \<Rightarrow> (Inr (map (\<lambda>(key, val). (key, ci_value val)) (sm_cache st)), st))"

text \<open>\<open>getItem(key, defaultValue)\<close> for a string key: a cached value that has no ttl or
  is not expired is returned; otherwise the store is read, and a failing read gives the
  default.\<close>

definition getItem :: "storageEnv \<Rightarrow> string \<Rightarrow> 'v \<Rightarrow> 'v storageManager
    \<Rightarrow> (error + 'v) \<times> 'v storageManager" where
  "getItem e key defaultValue st =
     (let hit = map_of (sm_cache st) key;
          fresh = (case hit of
                     None \<Rightarrow> False
                   | Some cached \<Rightarrow>
                       (case ci_ttl cached of
                          None \<Rightarrow> True
                        | Some ttl \<Rightarrow> ttl = 0 \<or> se_now e - ci_timestamp cached < ttl))
      in if fresh then (Inr (ci_value (the hit)), st)
         else
           let st1 = (if hit \<noteq> None then st\<lparr>sm_cache := mapDelete key (sm_cache st)\<rparr> else st)
           in case se_lastError e of
                Some msg \<Rightarrow> (Inr defaultValue, st1)
              | None \<Rightarrow>
                  (case map_of (sm_items st1) key of
                     Some v \<Rightarrow>
                       (Inr v, st1\<lparr>sm_cache := mapSet key
                          \<lparr>ci_value = v, ci_timestamp = se_now e, ci_version = 1, ci_ttl = None\<rparr>
                          (sm_cache st1)\<rparr>)
                   | None \<Rightarrow> (Inr defaultValue, st1)))"

subsection \<open>Derived notions and example states of the persistence layer\<close>

text \<open>What \<open>cleanupOldRecords\<close> leaves in the store when it runs its deletions, and the
  records whose serialisation \<open>estimateDBSize\<close> measures.\<close>

definition remainingAfterCleanup :: "rat \<Rightarrow> scan list \<Rightarrow> scan list" where
  "remainingAfterCleanup ratio xs =
     filter (\<lambda>s. scanId s \<notin> set (map scanId
        (drop (keepCountOf (length xs) ratio) (timestampIndex_getAll xs)))) xs"

definition sizeSample :: "scan list \<Rightarrow> scan list" where
  "sizeSample xs = slice 0 1000 (sortNewestFirst (timestampIndex_getAll xs))"

text \<open>An initialised manager on the primary store.\<close>

definition readyManager :: "scan list \<Rightarrow> manager" where
  "readyManager stored =
     \<lparr> idb = stored, dbOpen = True, initialized = True, initializationPromise = Resolved,
       useFallback = False, fallbackInitialized = False, chromeStore = None \<rparr>"

text \<open>An environment without faults, at clock value \<open>t\<close>; serialised scans take 300
  characters each.\<close>

definition quietEnv :: "int \<Rightarrow> env" where
  "quietEnv t =
     \<lparr> now = t, nowISO = ''2025-01-01T00:00:00.000Z'', random9 = ''k3x9q2m1z'',
       jsonLength = (\<lambda>d. 300), jsonLengthScans = (\<lambda>xs. 2 + 300 * length xs),
       openResult = OpenSuccess, idbFails = (\<lambda>op. False), chromeFails = (\<lambda>op. False) \<rparr>"

definition exampleScan :: "nat \<Rightarrow> scan" where
  "exampleScan i =
     \<lparr> scanId = ''scan_'' @ replicate i (CHR ''x''), url = Some ''https://chat.example/c/1'',
       title = None, timestamp = 1700000000000 + int i, snippet = None, platform = Some ''Web'',
       createdAt = ''2025-01-01T00:00:00.000Z'', version = ''1.0'',
       password = None, token = None, apiKey = None, cookie = None \<rparr>"

definition store1200 :: "scan list" where
  "store1200 = map exampleScan [0..<1200]"

text \<open>A manager that runs on the fallback store, and a record written twice.\<close>

definition fallbackManager :: "scan list \<Rightarrow> manager" where
  "fallbackManager kept =
     \<lparr> idb = [], dbOpen = False, initialized = True, initializationPromise = Resolved,
       useFallback = True, fallbackInitialized = True, chromeStore = Some kept \<rparr>"

definition exampleData :: scanData where
  "exampleData =
     \<lparr> sd_id = Some ''scan_a'', sd_url = Some ''https://chat.example/c/1'',
       sd_title = Some ''Project chat'', sd_timestamp = Some 1700000000000,
       sd_snippet = None, sd_platform = Some ''Web'',
       sd_password = None, sd_token = None, sd_apiKey = None, sd_cookie = None \<rparr>"

text \<open>Environments in which opening the database fails with an error event, and in
  which the open request never delivers an event; data without url and title; and an
  environment in which \<open>chrome.storage.local.set\<close> fails.\<close>

definition openErrorEnv :: env where
  "openErrorEnv = (quietEnv 1700000000000)\<lparr>openResult := OpenError\<rparr>"

definition timeoutEnv :: env where
  "timeoutEnv = (quietEnv 1700000000000)\<lparr>openResult := OpenTimeout\<rparr>"



definition queryFailEnv :: env where
  "queryFailEnv = (quietEnv 1700000060000)\<lparr>idbFails := (\<lambda>op. op = OpGetScans)\<rparr>"

text \<open>Two writes of one page, one minute apart, whose titles share four of five words.\<close>

definition firstScan :: scan where
  "firstScan =
     \<lparr> scanId = ''scan_a'', url = Some ''https://chat.example/c/1'',
       title = Some ''alpha beta gamma delta'', timestamp = 1700000000000,
       snippet = None, platform = Some ''Web'',
       createdAt = ''2025-01-01T00:00:00.000Z'', version = ''1.0'',
       password = None, token = None, apiKey = None, cookie = None \<rparr>"

definition secondData :: scanData where
  "secondData =
     \<lparr> sd_id = Some ''scan_b'', sd_url = Some ''https://chat.example/c/1'',
       sd_title = Some ''alpha beta gamma delta epsilon'', sd_timestamp = Some 1700000060000,
       sd_snippet = None, sd_platform = Some ''Web'',
       sd_password = None, sd_token = None, sd_apiKey = None, sd_cookie = None \<rparr>"

definition closeData :: scanData where
  "closeData = secondData\<lparr>sd_title := Some ''Alpha  beta gamma DELTA''\<rparr>"

text \<open>Titles with Latin-1 letters and a no-break space: \<open>toLowerCase\<close> folds U+00C9 to
  U+00E9, and U+00A0 separates words.\<close>

definition accentTitle :: string where
  "accentTitle = [CHR 0xC9, CHR '' '', CHR 0xE9] @ '' a b c''"

definition accentTitleLonger :: string where
  "accentTitleLonger = [CHR 0xC9, CHR '' '', CHR 0xE9] @ '' a b'' @ [CHR 0xA0] @ ''c d''"

text \<open>A storage manager whose cache holds one entry, and a failing read.\<close>

definition cachedStorage :: "string storageManager" where
  "cachedStorage =
     \<lparr> sm_items = [(''liveScanConfig'', ''cfg2'')],
       sm_cache = [(''liveScanConfig'',
          \<lparr>ci_value = ''cfg1'', ci_timestamp = 1700000000000, ci_version = 1, ci_ttl = None\<rparr>)] \<rparr>"

definition failingRead :: storageEnv where
  "failingRead = \<lparr> se_now = 1700000060000, se_lastError = Some ''IO error'' \<rparr>"

section \<open>Fragment identity: \<open>ChatSaveContentScript.generateMessageId\<close>\<close>

text \<open>
  Of an element, the identity reads the bounding rectangle (\<open>None\<close> when
  \<open>getBoundingClientRect\<close> throws); coordinates are doubles, taken as rationals.
  \<open>Math.round\<close> rounds to the nearest integer, halves upwards.
\<close>

record domRect =
  rect_top :: rat
  rect_left :: rat

definition Math_round :: "rat \<Rightarrow> int" where
  "Math_round x = \<lfloor>x + 1 / 2\<rfloor>"

definition getElementPosition :: "domRect option \<Rightarrow> string" where
  "getElementPosition el =
     (case el of
        None \<Rightarrow> ''0_0''
      | Some r \<Rightarrow> intToString 10 (Math_round (rect_top r)) @ ''_'' @ intToString 10 (Math_round (rect_left r)))"

text \<open>
  The loop body \<open>hash = ((hash << 5) - hash) + char; hash = hash & hash\<close>: the
  intermediate sum is exact in a double and \<open>hash & hash\<close> reduces it to a signed
  32-bit integer, so one step is arithmetic on 32-bit words.
\<close>

definition hashStep :: "32 word \<Rightarrow> char \<Rightarrow> 32 word" where
  "hashStep hash c = (push_bit 5 hash - hash) + of_nat (charCode c)"

definition hashString :: "string \<Rightarrow> 32 word" where
  "hashString str = foldl hashStep 0 str"

text \<open>\<open>Math.abs(hash).toString(36)\<close> of a signed 32-bit value.\<close>

definition absToString36 :: "32 word \<Rightarrow> string" where
  "absToString36 hash = natToString 36 (nat \<bar>sint hash\<bar>)"

text \<open>
  What \<open>detectPlatform()\<close> reads: the host name of the page, and for a selector
  whether \<open>document.querySelector\<close> finds an element. The text \<open>[\<close> alone is not
  a selector, and \<open>querySelector\<close> throws a \<open>SyntaxError\<close> on it; the other texts
  passed below are selectors.
\<close>

record document =
  hostname :: string
  selects :: "string \<Rightarrow> bool"

definition querySelector :: "document \<Rightarrow> string \<Rightarrow> error + bool" where
  "querySelector d sel =
     (if sel = ''['' then Inl (Error ''SyntaxError'') else Inr (selects d sel))"

text \<open>
  \<open>scanConfig.platformSelectors\<close>, in the order of its properties. The first five
  values are arrays of selectors. The value of \<open>discord\<close> is a string, so the loop
  \<open>for (const selector of selectors)\<close> runs over its characters, the first of which is
  \<open>[\<close>.
\<close>

definition platformSelectors :: "(string \<times> string list) list" where
  "platformSelectors =
     [(''chatgpt'', [''#__next'', ''[data-testid*='' @ dquote @ ''conversation'' @ dquote @ '']'']),
      (''deepseek'', [''[class*='' @ dquote @ ''deepseek'' @ dquote @ '']'', ''.chat-container'']),
      (''telegram'', [''.tg-page'', ''.telegram'']),
      (''whatsapp'', [''[data-testid*='' @ dquote @ ''conversation'' @ dquote @ '']'', ''.two'']),
      (''messenger'', [''[role='' @ dquote @ ''main'' @ dquote @ '']'',
                       ''[aria-label*='' @ dquote @ ''Messenger'' @ dquote @ '']'']),
      (''discord'', map (\<lambda>c. [c]) (''[class*='' @ dquote @ ''app'' @ dquote @ '']''))]"

text \<open>\<open>capitalizeFirst\<close>; it is applied to the property names above, whose first
  character is a letter \<open>a\<close> to \<open>z\<close>. \<open>toUpperChar\<close> is \<open>toUpperCase\<close> on one
  code unit for these letters and for the Latin-1 letters U+00E0 to U+00FE (U+00F7 is the
  division sign); the upper case of U+00B5, U+00DF and U+00FF lies outside the code units
  below 256 and is not modelled.\<close>

definition toUpperChar :: "char \<Rightarrow> char" where
  "toUpperChar c =
     (let n = charCode c
      in if (97 \<le> n \<and> n \<le> 122) \<or> (224 \<le> n \<and> n \<le> 254 \<and> n \<noteq> 247)
         then char_of (n - 32) else c)"

definition capitalizeFirst :: "string \<Rightarrow> string" where
  "capitalizeFirst s = map toUpperChar (take 1 s) @ drop 1 s"

text \<open>The inner and the outer loop of \<open>detectPlatform\<close>; an exception of
  \<open>querySelector\<close> ends both.\<close>

fun anySelects :: "document \<Rightarrow> string list \<Rightarrow> error + bool" where
  "anySelects d [] = Inr False"
| "anySelects d (sel # sels) =
     (case querySelector d sel of
        Inl err \<Rightarrow> Inl err
      | Inr found \<Rightarrow> if found then Inr True else anySelects d sels)"

fun platformBySelectors :: "document \<Rightarrow> (string \<times> string list) list \<Rightarrow> error + string" where
  "platformBySelectors d [] = Inr ''Web''"
| "platformBySelectors d ((platformKey, selectors) # rest) =
     (case anySelects d selectors of
        Inl err \<Rightarrow> Inl err
      | Inr found \<Rightarrow> if found then Inr (capitalizeFirst platformKey) else platformBySelectors d rest)"

definition detectPlatform :: "document \<Rightarrow> error + string" where
  "detectPlatform d =
     (if includes_str (hostname d) ''chat.openai.com'' then Inr ''ChatGPT''
      else if includes_str (hostname d) ''chat.deepseek.com'' then Inr ''DeepSeek''
      else if includes_str (hostname d) ''web.telegram.org'' then Inr ''Telegram''
      else if includes_str (hostname d) ''web.whatsapp.com'' then Inr ''WhatsApp''
      else if includes_str (hostname d) ''messenger.com'' then Inr ''Messenger''
      else if includes_str (hostname d) ''discord.com'' then Inr ''Discord''
      else platformBySelectors d platformSelectors)"

text \<open>
  The hashed string and the id. \<open>idNow\<close> is \<open>Date.now()\<close> and \<open>idRandom\<close> are the
  characters of \<open>Math.random().toString(36).substr(2, 9)\<close>. Inside the \<open>try\<close> only
  \<open>detectPlatform()\<close> can throw (\<open>getElementPosition\<close> has a handler of its own);
  when it does, the handler returns the fallback id.
\<close>

record idEnv =
  idNow :: int
  idRandom :: string

definition identityString :: "domRect option \<Rightarrow> string \<Rightarrow> string \<Rightarrow> string" where
  "identityString el platformTag content =
     take 50 content @ ''_'' @ getElementPosition el @ ''_'' @ platformTag"

definition messageHash :: "domRect option \<Rightarrow> string \<Rightarrow> string \<Rightarrow> string" where
  "messageHash el platformTag content = absToString36 (hashString (identityString el platformTag content))"

definition generateMessageId :: "idEnv \<Rightarrow> document \<Rightarrow> domRect option \<Rightarrow> string \<Rightarrow> string" where
  "generateMessageId e d el content =
     (case detectPlatform d of
        Inr platformTag \<Rightarrow>
          ''msg_'' @ messageHash el platformTag content @ ''_'' @ intToString 36 (idNow e)
      | Inl err \<Rightarrow>
          ''msg_fallback_'' @ intToString 10 (idNow e) @ ''_'' @ idRandom e)"

text \<open>
  The duplicate filter that every extraction path puts behind the id
  (\<open>if (!this.messageCache.has(id)) { messages.push(...); this.messageCache.add(id) }\<close>,
  and the same with \<open>seenMessages\<close>): whether the fragment is reported, and the cache
  afterwards.
\<close>

definition reportUnlessCached :: "string \<Rightarrow> string list \<Rightarrow> bool \<times> string list" where
  "reportUnlessCached ident cache =
     (if ident \<in> set cache then (False, cache) else (True, cache @ [ident]))"

definition exampleRect :: domRect where
  "exampleRect = \<lparr> rect_top = 241 / 2, rect_left = 16 \<rparr>"

definition nearbyRect :: domRect where
  "nearbyRect = \<lparr> rect_top = 1207 / 10, rect_left = 163 / 10 \<rparr>"

text \<open>A ChatGPT page, and a page that no host name and none of the selectors of the first
  five platforms matches.\<close>

definition chatgptDom :: document where
  "chatgptDom = \<lparr> hostname = ''chat.openai.com'', selects = (\<lambda>sel. False) \<rparr>"

definition plainDom :: document where
  "plainDom = \<lparr> hostname = ''chat.example'', selects = (\<lambda>sel. False) \<rparr>"

definition idEnvAt :: "int \<Rightarrow> idEnv" where
  "idEnvAt t = \<lparr> idNow = t, idRandom = ''k3x9q2m1z'' \<rparr>"

section \<open>Hybrid merge: \<open>DeepScanCoordinator.mergeScanData\<close> and \<open>ScanSystem.mergeScanData\<close>\<close>

text \<open>
  The records the merge reads. A deep scan record carries the \<open>messageCount\<close> its
  producer set (the length of the extracted message array, in both deep-scan paths); the
  \<open>messageCount\<close> of \<open>liveData\<close> is the length of the collected messages, or 0. A live
  session record read by \<open>getLiveSession\<close> may lack its count and its end time.
\<close>

record deepScanRecord =
  ds_id :: string
  ds_messageCount :: nat
  ds_timestamp :: int
  ds_platform :: string
  ds_url :: string

record liveSessionRecord =
  ls_sessionId :: string
  ls_messageCount :: "nat option"
  ls_endTime :: "string option"

record liveData =
  ld_sessionId :: string
  ld_messageCount :: nat
  ld_messages :: "string list"
  ld_sessionInfo :: "liveSessionRecord option"
  ld_collectionTime :: int

record hybridSession =
  hs_sessionId :: string
  hs_tabId :: nat
  hs_deepScanId :: "string option"

record timeRange =
  tr_start :: int
  tr_end :: string
  tr_duration :: "int option"

record mergeStatistics =
  totalMessages :: nat
  deepMessages :: nat
  liveMessages :: nat
  timeRangeOf :: timeRange
  efficiency :: "rat option"

record mergedResult =
  mergeId :: "string option"
  mr_sessionId :: "string option"
  mergedAt :: string
  mr_deepScan :: deepScanRecord
  mr_liveData :: "liveData option"
  mr_liveSession :: "liveSessionRecord option"
  statistics :: mergeStatistics
  mr_metadata :: "(nat \<times> string \<times> string) option"

text \<open>
  The database handler as the merge sees it: whether one is attached, the stored deep
  scans and live sessions, whether reading or saving fails in this call, and the merged
  results saved so far. The clock and random characters are as before.
\<close>

record mergeEnv =
  me_now :: int
  me_nowISO :: string
  me_random9 :: string
  me_readFails :: bool
  me_saveFails :: bool

record handlerState =
  dbHandlerAttached :: bool
  deepScans :: "(string \<times> deepScanRecord) list"
  liveSessions :: "(string \<times> liveSessionRecord) list"
  mergedScans :: "mergedResult list"

definition getDeepScan :: "mergeEnv \<Rightarrow> handlerState \<Rightarrow> string option \<Rightarrow> error + deepScanRecord option" where
  "getDeepScan e h key =
     (if me_readFails e then Inl (Error ''read failed'')
      else Inr (case key of None \<Rightarrow> None | Some k \<Rightarrow> map_of (deepScans h) k))"

definition getLiveSession :: "mergeEnv \<Rightarrow> handlerState \<Rightarrow> string \<Rightarrow> error + liveSessionRecord option" where
  "getLiveSession e h key =
     (if me_readFails e then Inl (Error ''read failed'') else Inr (map_of (liveSessions h) key))"

definition saveMergedScan :: "mergeEnv \<Rightarrow> mergedResult \<Rightarrow> handlerState \<Rightarrow> (error + unit) \<times> handlerState" where
  "saveMergedScan e r h =
     (if me_saveFails e then (Inl (Error ''save failed''), h)
      else (Inr (), h\<lparr>mergedScans := mergedScans h @ [r]\<rparr>))"

text \<open>\<open>calculateEfficiency\<close>: the share of live messages in percent, at most 100.\<close>

definition calculateEfficiency :: "nat \<Rightarrow> nat \<Rightarrow> rat" where
  "calculateEfficiency deepCount liveCount =
     (let total = deepCount + liveCount
      in if total = 0 then 0
         else min (js_mul (js_div (of_nat liveCount) (of_nat total)) 100) 100)"

definition coordinator_mergeScanData ::
  "mergeEnv \<Rightarrow> hybridSession \<Rightarrow> liveData \<Rightarrow> handlerState \<Rightarrow> (error + mergedResult) \<times> handlerState" where
  "coordinator_mergeScanData e session live h =
     (if \<not> dbHandlerAttached h then (Inl (Error ''DBHandler not available for data merging''), h)
      else
        case getDeepScan e h (hs_deepScanId session) of
          Inl err \<Rightarrow> (Inl err, h)
        | Inr None \<Rightarrow> (Inl (Error ''Deep Scan data not found''), h)
        | Inr (Some deepScan) \<Rightarrow>
            let mergedResult =
                  \<lparr> mergeId = Some (''merge_'' @ intToString 10 (me_now e) @ ''_'' @ me_random9 e),
                    mr_sessionId = Some (hs_sessionId session),
                    mergedAt = me_nowISO e,
                    mr_deepScan = deepScan,
                    mr_liveData = Some live,
                    mr_liveSession = None,
                    statistics =
                      \<lparr> totalMessages = ds_messageCount deepScan + ld_messageCount live,
                        deepMessages = ds_messageCount deepScan,
                        liveMessages = ld_messageCount live,
                        timeRangeOf = \<lparr> tr_start = ds_timestamp deepScan, tr_end = me_nowISO e,
                                        tr_duration = Some (me_now e - ds_timestamp deepScan) \<rparr>,
                        efficiency = Some (calculateEfficiency (ds_messageCount deepScan)
                                             (ld_messageCount live)) \<rparr>,
                    mr_metadata = Some (hs_tabId session, ds_platform deepScan, ds_url deepScan) \<rparr>
            in case saveMergedScan e mergedResult h of
                 (Inl err, h1) \<Rightarrow> (Inl err, h1)
               | (Inr u, h1) \<Rightarrow> (Inr mergedResult, h1))"

text \<open>\<open>x || 0\<close> on a count that may be missing, and on a count that is a number.\<close>

definition orZero :: "nat option \<Rightarrow> nat" where
  "orZero v = (case v of None \<Rightarrow> 0 | Some n \<Rightarrow> n)"

text \<open>\<open>ScanSystem.mergeScanData\<close>; calling a method of a missing handler throws a
  \<open>TypeError\<close>, which the handler of the method rethrows.\<close>

definition scanSystem_mergeScanData ::
  "mergeEnv \<Rightarrow> string \<Rightarrow> string \<Rightarrow> handlerState \<Rightarrow> (error + mergedResult) \<times> handlerState" where
  "scanSystem_mergeScanData e deepScanId liveSessionId h =
     (if \<not> dbHandlerAttached h then (Inl (Error ''TypeError''), h) else
      case getDeepScan e h (Some deepScanId) of
        Inl err \<Rightarrow> (Inl err, h)
      | Inr deepData \<Rightarrow>
          (case getLiveSession e h liveSessionId of
             Inl err \<Rightarrow> (Inl err, h)
           | Inr liveSession \<Rightarrow>
               (case (deepData, liveSession) of
                  (Some deep, Some live) \<Rightarrow>
                    let mergedData =
                          \<lparr> mergeId = None, mr_sessionId = None,
                            mergedAt = me_nowISO e,
                            mr_deepScan = deep,
                            mr_liveData = None,
                            mr_liveSession = Some live,
                            statistics =
                              \<lparr> totalMessages = orZero (Some (ds_messageCount deep))
                                                + orZero (ls_messageCount live),
                                deepMessages = orZero (Some (ds_messageCount deep)),
                                liveMessages = orZero (ls_messageCount live),
                                timeRangeOf = \<lparr> tr_start = ds_timestamp deep,
                                   tr_end = (if truthy (ls_endTime live) then the (ls_endTime live)
                                             else me_nowISO e),
                                   tr_duration = None \<rparr>,
                                efficiency = None \<rparr>,
                            mr_metadata = None \<rparr>
                    in (case saveMergedScan e mergedData h of
                          (Inl err, h1) \<Rightarrow> (Inl err, h1)
                        | (Inr u, h1) \<Rightarrow> (Inr mergedData, h1))
                | other \<Rightarrow> (Inl (Error ''Scan data not found for merging''), h))))"

definition exampleDeep :: deepScanRecord where
  "exampleDeep =
     \<lparr> ds_id = ''deep_1'', ds_messageCount = 12, ds_timestamp = 1700000000000,
       ds_platform = ''ChatGPT'', ds_url = ''https://chat.example/c/1'' \<rparr>"

definition exampleHandler :: handlerState where
  "exampleHandler =
     \<lparr> dbHandlerAttached = True, deepScans = [(''deep_1'', exampleDeep)],
       liveSessions = [(''hybrid_1'',
          \<lparr> ls_sessionId = ''hybrid_1'', ls_messageCount = None, ls_endTime = None \<rparr>)],
       mergedScans = [] \<rparr>"

definition exampleMergeEnv :: mergeEnv where
  "exampleMergeEnv =
     \<lparr> me_now = 1700000600000, me_nowISO = ''2023-11-14T22:23:20.000Z'', me_random9 = ''k3x9q2m1z'',
       me_readFails = False, me_saveFails = False \<rparr>"

definition exampleHybrid :: hybridSession where
  "exampleHybrid = \<lparr> hs_sessionId = ''hybrid_1'', hs_tabId = 7, hs_deepScanId = Some ''deep_1'' \<rparr>"

definition exampleLive :: liveData where
  "exampleLive =
     \<lparr> ld_sessionId = ''hybrid_1'', ld_messageCount = 3, ld_messages = [''a'', ''b'', ''c''],
       ld_sessionInfo = None, ld_collectionTime = 1700000600000 \<rparr>"

section \<open>Session manager: \<open>LiveScanManager\<close>\<close>

record tab =
  tab_id :: nat
  tab_url :: string

datatype sessionStatus = Active | Stopped | Expired

record session =
  sessionId :: string
  startTime :: int
  sessionTab :: tab
  messageCount :: nat
  lastActivity :: int
  status :: sessionStatus
  endTime :: "int option"

text \<open>A fragment as the content script sends it, and the payload of a
  \<open>LIVE_SCAN_DATA_CHUNK\<close> message; \<open>messages\<close> may be missing.\<close>

record fragment =
  frag_id :: string
  frag_content :: string
  frag_timestamp :: int

record liveScanData =
  lsd_scanType :: string
  lsd_messages :: "fragment list option"
  lsd_timestamp :: int

record chunk =
  chunk_sessionId :: string
  chunk_timestamp :: int
  chunk_messages :: "fragment list"
  chunk_tabId :: nat
  chunk_url :: string
  chunk_platform :: string
  chunk_chunkSize :: nat

text \<open>
  What the content script answers to a message sent with \<open>chrome.tabs.sendMessage\<close>:
  \<open>chrome.runtime.lastError\<close> is set, or a response object arrives (its \<open>success\<close>
  flag and \<open>error\<close> text), or the response is \<open>undefined\<close>.
\<close>

datatype tabReply = LastError string | Response bool "string option" | NoResponse

record liveEnv =
  le_now :: int
  le_random9 :: string
  le_tabReply :: tabReply
  le_storageFails :: bool

text \<open>
  The manager: the maps \<open>sessions\<close> and \<open>messageBuffer\<close>, the flag \<open>isInitialized\<close>,
  \<open>config.maxBufferSize\<close>, the chunks handed to \<open>storeChunk\<close> so far (one per flush,
  in order), and the object under the storage key \<open>liveScanSessions\<close>.
  \<open>processLiveData\<close> and \<open>storeChunk\<close> write to the database handler and to storage
  keys of their own; they catch their errors and touch neither sessions nor buffers, so
  only the call of \<open>storeChunk\<close> is recorded.
\<close>

record liveScanManager =
  sessions :: "(nat \<times> session) list"
  messageBuffer :: "(nat \<times> fragment list) list"
  isInitialized :: bool
  maxBufferSize :: nat
  storedChunks :: "chunk list"
  savedSessions :: "(nat \<times> session) list"

definition lsm_detectPlatform :: "string \<Rightarrow> string" where
  "lsm_detectPlatform u =
     (if u = [] then ''unknown''
      else
        let urlLower = toLowerCase u
        in if includes_str urlLower ''web.telegram.org'' then ''Telegram''
           else if includes_str urlLower ''web.whatsapp.com'' then ''WhatsApp''
           else if includes_str urlLower ''messenger.com'' then ''Messenger''
           else if includes_str urlLower ''discord.com'' then ''Discord''
           else if includes_str urlLower ''chat.openai.com'' then ''ChatGPT''
           else if includes_str urlLower ''chat.deepseek.com'' then ''DeepSeek''
           else if includes_str urlLower ''slack.com'' then ''Slack''
           else ''Web'')"

definition flushBuffer :: "liveEnv \<Rightarrow> nat \<Rightarrow> liveScanManager \<Rightarrow> liveScanManager" where
  "flushBuffer e tabId s =
     (case map_of (messageBuffer s) tabId of
        None \<Rightarrow> s
      | Some buffer \<Rightarrow>
          if buffer = [] then s
          else
            case map_of (sessions s) tabId of
              None \<Rightarrow> s
            | Some session \<Rightarrow>
                let chunk = \<lparr> chunk_sessionId = sessionId session,
                              chunk_timestamp = le_now e,
                              chunk_messages = buffer,
                              chunk_tabId = tabId,
                              chunk_url = tab_url (sessionTab session),
                              chunk_platform = lsm_detectPlatform (tab_url (sessionTab session)),
                              chunk_chunkSize = length buffer \<rparr>
                in s\<lparr>storedChunks := storedChunks s @ [chunk],
                     messageBuffer := mapSet tabId [] (messageBuffer s)\<rparr>)"

definition bufferMessages :: "liveEnv \<Rightarrow> nat \<Rightarrow> liveScanData \<Rightarrow> liveScanManager \<Rightarrow> liveScanManager" where
  "bufferMessages e tabId data s =
     (let s1 = (if map_of (messageBuffer s) tabId = None
                then s\<lparr>messageBuffer := mapSet tabId [] (messageBuffer s)\<rparr> else s);
          buffer = the (map_of (messageBuffer s1) tabId)
                     @ (case lsd_messages data of None \<Rightarrow> [] | Some ms \<Rightarrow> ms);
          s2 = s1\<lparr>messageBuffer := mapSet tabId buffer (messageBuffer s1)\<rparr>
      in if length buffer \<ge> maxBufferSize s2 then flushBuffer e tabId s2 else s2)"

text \<open>\<open>saveSessionState\<close> writes six properties of the session under its tab id (the
  end time is not among them); a failing storage call is caught.\<close>

definition saveSessionState :: "liveEnv \<Rightarrow> session \<Rightarrow> liveScanManager \<Rightarrow> liveScanManager" where
  "saveSessionState e sess s =
     (if le_storageFails e then s
      else s\<lparr>savedSessions :=
             mapSet (tab_id (sessionTab sess)) (sess\<lparr>endTime := None\<rparr>) (savedSessions s)\<rparr>)"

definition cleanupSession :: "liveEnv \<Rightarrow> nat \<Rightarrow> liveScanManager \<Rightarrow> liveScanManager" where
  "cleanupSession e tabId s =
     (case map_of (sessions s) tabId of
        None \<Rightarrow> s
      | Some sess \<Rightarrow>
          let s1 = flushBuffer e tabId s;
              s2 = saveSessionState e (sess\<lparr>status := Stopped, endTime := Some (le_now e)\<rparr>) s1
          in s2\<lparr>sessions := mapDelete tabId (sessions s2),
                messageBuffer := mapDelete tabId (messageBuffer s2)\<rparr>)"

record startResult =
  sr_success :: bool
  sr_sessionId :: string

record stopResult =
  success :: bool

definition createSession :: "liveEnv \<Rightarrow> string" where
  "createSession e = ''session_'' @ intToString 10 (le_now e) @ ''_'' @ le_random9 e"

text \<open>\<open>startMonitoring\<close>; \<open>ensureContentScriptInjected\<close> resolves whatever the tab
  answers, so the reply that matters is the one to \<open>START_LIVE_SCAN\<close>.\<close>

definition startMonitoring :: "liveEnv \<Rightarrow> tab \<Rightarrow> liveScanManager
    \<Rightarrow> (error + startResult) \<times> liveScanManager" where
  "startMonitoring e t s =
     (if \<not> isInitialized s then (Inl (Error ''LiveScanManager not initialized''), s)
      else
        case le_tabReply e of
          LastError msg \<Rightarrow> (Inl (Error msg), cleanupSession e (tab_id t) s)
        | NoResponse \<Rightarrow> (Inl (Error ''Failed to start monitoring''), cleanupSession e (tab_id t) s)
        | Response ok err \<Rightarrow>
            if ok
            then (Inr \<lparr> sr_success = True, sr_sessionId = createSession e \<rparr>,
                  s\<lparr>sessions := mapSet (tab_id t)
                         \<lparr> sessionId = createSession e, startTime = le_now e, sessionTab = t,
                           messageCount = 0, lastActivity = le_now e, status = Active,
                           endTime = None \<rparr> (sessions s),
                     messageBuffer := mapSet (tab_id t) [] (messageBuffer s)\<rparr>)
            else (Inl (Error (if truthy err then the err else ''Failed to start monitoring'')),
                  cleanupSession e (tab_id t) s))"

definition stopMonitoring :: "liveEnv \<Rightarrow> tab \<Rightarrow> liveScanManager
    \<Rightarrow> (error + stopResult) \<times> liveScanManager" where
  "stopMonitoring e t s =
     (if \<not> isInitialized s then (Inl (Error ''LiveScanManager not initialized''), s)
      else
        case le_tabReply e of
          LastError msg \<Rightarrow> (Inl (Error msg), s)
        | other \<Rightarrow> (Inr \<lparr> success = True \<rparr>, cleanupSession e (tab_id t) s))"

definition handleLiveScanData :: "liveEnv \<Rightarrow> liveScanData \<Rightarrow> nat \<Rightarrow> liveScanManager \<Rightarrow> liveScanManager" where
  "handleLiveScanData e data tabId s =
     (if \<not> isInitialized s then s
      else
        case map_of (sessions s) tabId of
          None \<Rightarrow> s
        | Some sess \<Rightarrow>
            if status sess \<noteq> Active then s
            else
              let sess1 = sess\<lparr>lastActivity := le_now e,
                               messageCount := messageCount sess
                                 + (case lsd_messages data of None \<Rightarrow> 0 | Some ms \<Rightarrow> length ms)\<rparr>;
                  s1 = s\<lparr>sessions := mapSet tabId sess1 (sessions s)\<rparr>;
                  s2 = bufferMessages e tabId data s1
              in if messageCount sess1 mod 10 = 0 then saveSessionState e sess1 s2 else s2)"

text \<open>\<open>cleanupInactiveSessions\<close>: the body of the \<open>forEach\<close> over the sessions, and
  the sweep.\<close>

definition sweepStep :: "liveEnv \<Rightarrow> int \<Rightarrow> nat \<times> session \<Rightarrow> nat \<times> liveScanManager
    \<Rightarrow> nat \<times> liveScanManager" where
  "sweepStep e maxInactiveTime entry acc =
     (case entry of (tabId, sess) \<Rightarrow>
        case acc of (cleanedCount, st) \<Rightarrow>
          if status sess = Active \<and> le_now e - lastActivity sess > maxInactiveTime
          then (cleanedCount + 1, cleanupSession e tabId st)
          else (cleanedCount, st))"

definition cleanupInactiveSessions :: "liveEnv \<Rightarrow> int \<Rightarrow> liveScanManager \<Rightarrow> nat \<times> liveScanManager" where
  "cleanupInactiveSessions e maxInactiveTime s = fold (sweepStep e maxInactiveTime) (sessions s) (0, s)"

text \<open>\<open>restoreSessions\<close>: a saved active session is resumed when its last activity is
  less than an hour old, and marked expired in the saved object otherwise.\<close>

definition restoreStep :: "liveEnv \<Rightarrow> nat \<times> session \<Rightarrow> liveScanManager \<Rightarrow> liveScanManager" where
  "restoreStep e entry st =
     (case entry of (tabId, sessionData) \<Rightarrow>
        if status sessionData = Active
        then (if le_now e - lastActivity sessionData < 60 * 60 * 1000
              then st\<lparr>sessions := mapSet tabId sessionData (sessions st),
                      messageBuffer := mapSet tabId [] (messageBuffer st)\<rparr>
              else st\<lparr>savedSessions :=
                      mapSet tabId (sessionData\<lparr>status := Expired\<rparr>) (savedSessions st)\<rparr>)
        else st)"

definition restoreSessions :: "liveEnv \<Rightarrow> liveScanManager \<Rightarrow> liveScanManager" where
  "restoreSessions e s =
     (if le_storageFails e then s else fold (restoreStep e) (savedSessions s) s)"

definition lsm_init :: "liveEnv \<Rightarrow> liveScanManager \<Rightarrow> liveScanManager" where
  "lsm_init e s = (if isInitialized s then s else (restoreSessions e s)\<lparr>isInitialized := True\<rparr>)"

text \<open>The calls on the manager as values, and the state after a call.\<close>

datatype liveCall =
    Start tab
  | Stop tab
  | LiveData liveScanData nat
  | Sweep int
  | InitManager

fun liveStep :: "liveEnv \<times> liveCall \<Rightarrow> liveScanManager \<Rightarrow> liveScanManager" where
  "liveStep (e, Start t) s = snd (startMonitoring e t s)"
| "liveStep (e, Stop t) s = snd (stopMonitoring e t s)"
| "liveStep (e, LiveData data tabId) s = handleLiveScanData e data tabId s"
| "liveStep (e, Sweep maxInactiveTime) s = snd (cleanupInactiveSessions e maxInactiveTime s)"
| "liveStep (e, InitManager) s = lsm_init e s"

text \<open>Fragments arriving one at a time, each in a message of its own.\<close>

definition oneFragment :: "fragment \<Rightarrow> liveScanData" where
  "oneFragment f = \<lparr> lsd_scanType = ''live_update'', lsd_messages = Some [f], lsd_timestamp = frag_timestamp f \<rparr>"

definition bufferOneByOne :: "(liveEnv \<times> fragment) list \<Rightarrow> nat \<Rightarrow> liveScanManager \<Rightarrow> liveScanManager" where
  "bufferOneByOne efs tabId s = fold (\<lambda>(e, f) st. handleLiveScanData e (oneFragment f) tabId st) efs s"

text \<open>Every session held in memory is active.\<close>

definition sessionsActive :: "liveScanManager \<Rightarrow> bool" where
  "sessionsActive s = (\<forall>(tabId, sess) \<in> set (sessions s). status sess = Active)"

text \<open>
  Between a state \<open>s\<close> and a later state \<open>s'\<close>, a session record newly saved with a
  terminal status comes from an active one: a stopped record from an active session held
  in memory, an expired record from a saved record that was active.
\<close>

definition stoppedFromActive :: "liveScanManager \<Rightarrow> liveScanManager \<Rightarrow> bool" where
  "stoppedFromActive s s' =
     (\<forall>tabId x. map_of (savedSessions s') tabId = Some x \<and> map_of (savedSessions s) tabId \<noteq> Some x
        \<longrightarrow> status x = Stopped
            \<and> (\<exists>k y. (k, y) \<in> set (sessions s) \<and> status y = Active \<and> sessionId y = sessionId x))"

definition expiredFromActive :: "liveScanManager \<Rightarrow> liveScanManager \<Rightarrow> bool" where
  "expiredFromActive s s' =
     (\<forall>tabId x. map_of (savedSessions s') tabId = Some x \<and> map_of (savedSessions s) tabId \<noteq> Some x
        \<longrightarrow> status x = Expired
            \<and> (\<exists>k y. (k, y) \<in> set (savedSessions s) \<and> status y = Active \<and> sessionId y = sessionId x))"

definition terminalFromActive :: "liveScanManager \<Rightarrow> liveScanManager \<Rightarrow> bool" where
  "terminalFromActive s s' =
     (\<forall>tabId x. map_of (savedSessions s') tabId = Some x \<and> status x \<noteq> Active
                 \<and> map_of (savedSessions s) tabId \<noteq> Some x \<longrightarrow>
        (status x = Stopped
           \<and> (\<exists>k y. (k, y) \<in> set (sessions s) \<and> status y = Active \<and> sessionId y = sessionId x))
        \<or> (status x = Expired
           \<and> (\<exists>k y. (k, y) \<in> set (savedSessions s) \<and> status y = Active \<and> sessionId y = sessionId x)))"

text \<open>A session that takes fragments: the manager is initialised, the tab has an active
  session and its buffer holds \<open>b\<close>.\<close>

definition feeding :: "liveScanManager \<Rightarrow> nat \<Rightarrow> fragment list \<Rightarrow> bool" where
  "feeding s tabId b =
     (isInitialized s
      \<and> (\<exists>x. map_of (sessions s) tabId = Some x \<and> status x = Active)
      \<and> map_of (messageBuffer s) tabId = Some b)"

text \<open>Example values: a fresh initialised manager, tab 7, a reply that reports success,
  and 51 fragments.\<close>

definition freshLiveManager :: liveScanManager where
  "freshLiveManager =
     \<lparr> sessions = [], messageBuffer = [], isInitialized = True, maxBufferSize = 50,
       storedChunks = [], savedSessions = [] \<rparr>"

definition tab7 :: tab where
  "tab7 = \<lparr> tab_id = 7, tab_url = ''https://chat.openai.com/c/1'' \<rparr>"

definition okEnv :: "int \<Rightarrow> liveEnv" where
  "okEnv t = \<lparr> le_now = t, le_random9 = ''k3x9q2m1z'', le_tabReply = Response True None,
               le_storageFails = False \<rparr>"

definition fragmentNo :: "nat \<Rightarrow> fragment" where
  "fragmentNo i = \<lparr> frag_id = ''msg_'' @ natToString 36 i, frag_content = ''message'',
                    frag_timestamp = 1700000000000 + int i \<rparr>"

definition fragments51 :: "(liveEnv \<times> fragment) list" where
  "fragments51 = map (\<lambda>i. (okEnv (1700000000000 + int i), fragmentNo i)) [1..<52]"

text \<open>The content script's side of a stop: \<open>stopLiveScan\<close> clears the flag, reports the
  status to the background (the send catches its own errors) and answers with success.\<close>

record contentScript =
  liveScanActive :: bool
  statusReports :: "(bool \<times> int) list"

definition stopLiveScan :: "int \<Rightarrow> contentScript \<Rightarrow> stopResult \<times> contentScript" where
  "stopLiveScan t cs =
     (\<lparr> success = True \<rparr>,
      cs\<lparr>liveScanActive := False, statusReports := statusReports cs @ [(False, t)]\<rparr>)"

definition startedManager :: liveScanManager where
  "startedManager = snd (startMonitoring (okEnv 1700000000000) tab7 freshLiveManager)"

definition activeScript :: contentScript where
  "activeScript = \<lparr> liveScanActive = True, statusReports = [(True, 1700000000000)] \<rparr>"

section \<open>Content extractor: \<open>DeepScan\<close>\<close>

subsection \<open>\<open>JSON.stringify\<close>\<close>

text \<open>
  The values that occur in a DOM snapshot: numbers are integers (counts, the clock and
  pixel coordinates), objects keep the order in which their properties were written.
\<close>

datatype json =
    JNull
  | JBool bool
  | JNum int
  | JStr string
  | JArr "json list"
  | JObj "(string \<times> json) list"

definition hexDigit :: "nat \<Rightarrow> char" where
  "hexDigit d = ''0123456789abcdef'' ! d"

definition escapeChar :: "char \<Rightarrow> string" where
  "escapeChar c =
     (let n = charCode c
      in if n = 34 then [CHR 0x5C, CHR 0x22]
         else if n = 92 then [CHR 0x5C, CHR 0x5C]
         else if n = 8 then [CHR 0x5C, CHR ''b'']
         else if n = 12 then [CHR 0x5C, CHR ''f'']
         else if n = 10 then [CHR 0x5C, CHR ''n'']
         else if n = 13 then [CHR 0x5C, CHR ''r'']
         else if n = 9 then [CHR 0x5C, CHR ''t'']
         else if n < 32 then [CHR 0x5C, CHR ''u'', CHR ''0'', CHR ''0'', hexDigit (n div 16), hexDigit (n mod 16)]
         else [c])"

definition quoteString :: "string \<Rightarrow> string" where
  "quoteString s = CHR 0x22 # concat (map escapeChar s) @ [CHR 0x22]"

fun joinWith :: "string \<Rightarrow> string list \<Rightarrow> string" where
  "joinWith sep [] = []"
| "joinWith sep [x] = x"
| "joinWith sep (x # y # ys) = x @ sep @ joinWith sep (y # ys)"

definition jsonMember :: "string \<times> string \<Rightarrow> string" where
  "jsonMember kv = quoteString (fst kv) @ '':'' @ snd kv"

primrec stringify :: "json \<Rightarrow> string" where
  "stringify JNull = ''null''"
| "stringify (JBool b) = (if b then ''true'' else ''false'')"
| "stringify (JNum n) = intToString 10 n"
| "stringify (JStr s) = quoteString s"
| "stringify (JArr xs) = ''['' @ joinWith '','' (map stringify xs) @ '']''"
| "stringify (JObj kvs) = ''{'' @ joinWith '','' (map jsonMember (map (map_prod id stringify) kvs)) @ ''}''"

subsection \<open>The page\<close>

text \<open>
  An element as the scan reads it: tag name, attributes, text, number of child elements,
  bounding rectangle (whole pixels), whether style and size show it
  (\<open>display\<close>, \<open>visibility\<close>, \<open>opacity\<close>, \<open>offsetWidth\<close>, \<open>offsetHeight\<close>) and whether
  the rectangle meets the viewport. A page is its elements in document order, with its
  url and title and what \<open>analyzeDOMStructure\<close> and \<open>detectPlatform\<close> compute from the
  DOM.
\<close>

record element =
  tagName :: string
  attributes :: "(string \<times> string) list"
  textContent :: string
  children :: nat
  el_top :: int
  el_left :: int
  el_width :: int
  el_height :: int
  styleShown :: bool
  inViewport :: bool

record page =
  pg_url :: string
  pg_title :: string
  pg_elements :: "element list"
  pg_structure :: json
  pg_platform :: string

text \<open>The selectors the scan uses, with the matching rule of each form.\<close>

datatype selector =
    SelTag string
  | SelClass string
  | SelAttrEq string string
  | SelAttrContains string string
  | SelTagAttrEq string string string

definition selectorText :: "selector \<Rightarrow> string" where
  "selectorText sel =
     (case sel of
        SelTag t \<Rightarrow> t
      | SelClass c \<Rightarrow> ''.'' @ c
      | SelAttrEq a v \<Rightarrow> ''['' @ a @ ''='' @ dquote @ v @ dquote @ '']''
      | SelAttrContains a v \<Rightarrow> ''['' @ a @ ''*='' @ dquote @ v @ dquote @ '']''
      | SelTagAttrEq t a v \<Rightarrow> t @ ''['' @ a @ ''='' @ dquote @ v @ dquote @ '']'')"

definition getAttribute :: "element \<Rightarrow> string \<Rightarrow> string option" where
  "getAttribute el a = map_of (attributes el) a"

definition className :: "element \<Rightarrow> string" where
  "className el = (case getAttribute el ''class'' of None \<Rightarrow> [] | Some c \<Rightarrow> c)"

definition elementId :: "element \<Rightarrow> string" where
  "elementId el = (case getAttribute el ''id'' of None \<Rightarrow> [] | Some i \<Rightarrow> i)"

text \<open>
  Selector matching, as on an HTML document in no-quirks mode. The class list of an
  element holds the pieces of its class attribute between ASCII white space (tab, line
  feed, form feed, carriage return, space). A type selector is compared with the tag name
  without regard to the case of the letters \<open>A\<close> to \<open>Z\<close>. Attribute values are
  compared as they are written, except those of \<open>type\<close>, which HTML compares without
  regard to the case of these letters.
\<close>

definition isAsciiWhitespace :: "char \<Rightarrow> bool" where
  "isAsciiWhitespace c = (charCode c \<in> {9, 10, 12, 13, 32})"

fun classTokens :: "string \<Rightarrow> string \<Rightarrow> string list" where
  "classTokens [] cur = [rev cur]"
| "classTokens (c # cs) cur =
     (if isAsciiWhitespace c then rev cur # classTokens cs [] else classTokens cs (c # cur))"

definition classList :: "element \<Rightarrow> string list" where
  "classList el = filter (\<lambda>c. c \<noteq> []) (classTokens (className el) [])"

definition asciiLowerChar :: "char \<Rightarrow> char" where
  "asciiLowerChar c =
     (if 65 \<le> charCode c \<and> charCode c \<le> 90 then char_of (charCode c + 32) else c)"

definition asciiLower :: "string \<Rightarrow> string" where
  "asciiLower s = map asciiLowerChar s"

definition attrEquals :: "string \<Rightarrow> string \<Rightarrow> string \<Rightarrow> bool" where
  "attrEquals a x v = (if a = ''type'' then asciiLower x = asciiLower v else x = v)"

definition matches :: "selector \<Rightarrow> element \<Rightarrow> bool" where
  "matches sel el =
     (case sel of
        SelTag t \<Rightarrow> asciiLower (tagName el) = t
      | SelClass c \<Rightarrow> c \<in> set (classList el)
      | SelAttrEq a v \<Rightarrow>
          (case getAttribute el a of None \<Rightarrow> False | Some x \<Rightarrow> attrEquals a x v)
      | SelAttrContains a v \<Rightarrow>
          (case getAttribute el a of None \<Rightarrow> False | Some x \<Rightarrow> includes_str x v)
      | SelTagAttrEq t a v \<Rightarrow>
          asciiLower (tagName el) = t
          \<and> (case getAttribute el a of None \<Rightarrow> False | Some x \<Rightarrow> attrEquals a x v))"

definition querySelectorAll :: "page \<Rightarrow> selector \<Rightarrow> element list" where
  "querySelectorAll p sel = filter (matches sel) (pg_elements p)"

definition isElementVisible :: "element \<Rightarrow> bool" where
  "isElementVisible el = (styleShown el \<and> inViewport el)"

subsection \<open>\<open>extractMessages\<close>\<close>

definition messageSelectors :: "selector list" where
  "messageSelectors =
     [SelAttrContains ''class'' ''message'', SelAttrContains ''class'' ''msg'',
      SelClass ''message'', SelClass ''msg'', SelAttrEq ''role'' ''listitem'',
      SelAttrContains ''data-testid'' ''message'', SelAttrContains ''aria-label'' ''message'']"

text \<open>A message as far as the count depends on it: the text (at most 500 characters),
  its full length, and the selector that found it.\<close>

record message =
  msg_text :: string
  msg_originalLength :: nat
  msg_element :: string

definition extractable :: "element \<Rightarrow> bool" where
  "extractable el =
     (isElementVisible el \<and> trim (textContent el) \<noteq> [] \<and> length (trim (textContent el)) > 2)"

definition messageOf :: "selector \<Rightarrow> element \<Rightarrow> message" where
  "messageOf sel el =
     \<lparr> msg_text = take 500 (trim (textContent el)),
       msg_originalLength = length (trim (textContent el)),
       msg_element = selectorText sel \<rparr>"

definition extractMessages :: "page \<Rightarrow> message list" where
  "extractMessages p =
     take 1000 (concat (map (\<lambda>sel. map (messageOf sel) (filter extractable (querySelectorAll p sel)))
                            messageSelectors))"

subsection \<open>\<open>captureDOMSnapshot\<close> and \<open>generateChecksum\<close>\<close>

definition chatSelectors :: "selector list" where
  "chatSelectors =
     [SelAttrContains ''class'' ''chat'', SelAttrContains ''class'' ''message'',
      SelAttrContains ''class'' ''msg'', SelAttrContains ''class'' ''conversation'',
      SelAttrContains ''class'' ''discussion'',
      SelClass ''message'', SelClass ''chat'', SelClass ''msg'', SelClass ''conversation'',
      SelAttrEq ''role'' ''log'', SelAttrEq ''aria-live'' ''polite'',
      SelAttrContains ''data-testid'' ''message'', SelAttrContains ''aria-label'' ''message'']"

definition inputSelectors :: "selector list" where
  "inputSelectors =
     [SelAttrEq ''contenteditable'' ''true'', SelAttrEq ''role'' ''textbox'',
      SelTag ''textarea'', SelTagAttrEq ''input'' ''type'' ''text'']"

definition mediaSelectors :: "selector list" where
  "mediaSelectors = [SelTag ''img'', SelTag ''video'', SelTag ''audio'']"

definition significantAttrs :: "string list" where
  "significantAttrs = [''id'', ''class'', ''data-id'', ''data-user'', ''data-time'', ''role'', ''aria-label'']"

definition getSignificantAttributes :: "element \<Rightarrow> json" where
  "getSignificantAttributes el =
     JObj (concat (map (\<lambda>a. case getAttribute el a of None \<Rightarrow> [] | Some v \<Rightarrow> [(a, JStr v)])
                       significantAttrs))"

definition createElementInfo :: "selector \<Rightarrow> element \<Rightarrow> json" where
  "createElementInfo sel el =
     JObj [(''selector'', JStr (selectorText sel)),
           (''tagName'', JStr (tagName el)),
           (''className'', JStr (className el)),
           (''id'', JStr (elementId el)),
           (''text'', JStr (take 200 (textContent el))),
           (''children'', JNum (int (children el))),
           (''attributes'', getSignificantAttributes el),
           (''position'', JObj [(''top'', JNum (el_top el)), (''left'', JNum (el_left el)),
                                (''width'', JNum (el_width el)), (''height'', JNum (el_height el)),
                                (''inViewport'', JBool (inViewport el))]),
           (''visible'', JBool (isElementVisible el))]"

definition visibleInfos :: "page \<Rightarrow> selector list \<Rightarrow> json list" where
  "visibleInfos p sels =
     concat (map (\<lambda>sel. map (createElementInfo sel) (filter isElementVisible (querySelectorAll p sel)))
                 sels)"

text \<open>The snapshot taken at clock value \<open>t\<close>, as the value handed to
  \<open>JSON.stringify\<close>.\<close>

definition captureDOMSnapshot :: "int \<Rightarrow> page \<Rightarrow> json" where
  "captureDOMSnapshot t p =
     (let chatElements = visibleInfos p chatSelectors;
          inputElements = visibleInfos p inputSelectors;
          mediaElements = visibleInfos p mediaSelectors
      in JObj [(''timestamp'', JNum t),
               (''url'', JStr (pg_url p)),
               (''title'', JStr (pg_title p)),
               (''totalElements'', JNum (int (length chatElements + length inputElements
                                               + length mediaElements))),
               (''chatElements'', JArr chatElements),
               (''inputElements'', JArr inputElements),
               (''mediaElements'', JArr mediaElements),
               (''structure'', pg_structure p)])"

definition generateChecksum :: "json \<Rightarrow> string" where
  "generateChecksum data =
     (let str = stringify data
      in if str = [] then ''0'' else absToString36 (hashString str))"

subsection \<open>\<open>performDeepScan\<close>\<close>

text \<open>
  The tab handed to \<open>performDeepScan\<close> (it may be missing, and so may its url and
  title), and the values of \<open>Date.now()\<close> that the scan reads, in this order: for
  \<open>scanStartTime\<close>, for the \<open>timestamp\<close> of the snapshot, and for \<open>scanDuration\<close>.
  The clock is also read in between, for the timestamps of messages and for the metadata;
  these readings enter none of the fields below.
\<close>

record tabInfo =
  tab_url :: "string option"
  tab_title :: "string option"

record scanClock =
  atStart :: int
  atSnapshot :: int
  atEnd :: int

record deepScanResult =
  dr_scanType :: string
  dr_timestamp :: int
  dr_url :: string
  dr_title :: string
  dr_platform :: string
  dr_messages :: "message list"
  dr_messageCount :: nat
  dr_checksum :: string
  dr_scanDuration :: int
  dr_elementsProcessed :: nat

text \<open>\<open>tab?.url || window.location.href\<close> and \<open>tab?.title || document.title\<close>.\<close>

definition tabOr :: "tabInfo option \<Rightarrow> (tabInfo \<Rightarrow> string option) \<Rightarrow> string \<Rightarrow> string" where
  "tabOr tab field fallback =
     (case tab of
        None \<Rightarrow> fallback
      | Some t \<Rightarrow> if truthy (field t) then the (field t) else fallback)"

definition performDeepScan :: "scanClock \<Rightarrow> tabInfo option \<Rightarrow> page \<Rightarrow> deepScanResult" where
  "performDeepScan c tab p =
     (let scanStartTime = atStart c;
          domSnapshot = captureDOMSnapshot (atSnapshot c) p;
          messages = extractMessages p
      in \<lparr> dr_scanType = ''deep'',
           dr_timestamp = scanStartTime,
           dr_url = tabOr tab tab_url (pg_url p),
           dr_title = tabOr tab tab_title (pg_title p),
           dr_platform = pg_platform p,
           dr_messages = messages,
           dr_messageCount = length messages,
           dr_checksum = generateChecksum domSnapshot,
           dr_scanDuration = atEnd c - scanStartTime,
           dr_elementsProcessed = length (visibleInfos p chatSelectors)
               + length (visibleInfos p inputSelectors) + length (visibleInfos p mediaSelectors) \<rparr>)"

text \<open>
  Two scans follow one another when the clock does not go back from one reading to the
  next, through the first scan and then through the second.
\<close>

definition successiveScans :: "scanClock \<Rightarrow> scanClock \<Rightarrow> bool" where
  "successiveScans c1 c2 =
     (atStart c1 \<le> atSnapshot c1 \<and> atSnapshot c1 \<le> atEnd c1 \<and> atEnd c1 \<le> atStart c2
      \<and> atStart c2 \<le> atSnapshot c2 \<and> atSnapshot c2 \<le> atEnd c2)"

text \<open>How many of the message selectors match an element.\<close>

definition matchCount :: "element \<Rightarrow> nat" where
  "matchCount el = length (filter (\<lambda>sel. matches sel el) messageSelectors)"

text \<open>Example pages: twelve message elements marked with the class \<open>message\<close>, and
  twelve marked with the role \<open>listitem\<close>.\<close>

definition messageDiv :: "(string \<times> string) list \<Rightarrow> nat \<Rightarrow> element" where
  "messageDiv attrs i =
     \<lparr> tagName = ''DIV'', attributes = attrs,
       textContent = ''Message '' @ natToString 10 i, children = 0,
       el_top = 40 * int i, el_left = 16, el_width = 600, el_height = 40,
       styleShown = True, inViewport = True \<rparr>"

definition emptyStructure :: json where
  "emptyStructure = JObj [(''depth'', JNum 3), (''chatContainers'', JNum 0),
                          (''hasMultipleChats'', JBool False), (''scrollableContainers'', JNum 0)]"

definition classPage :: page where
  "classPage =
     \<lparr> pg_url = ''https://chat.example/c/1'', pg_title = ''Chat'',
       pg_elements = map (messageDiv [(''class'', ''message'')]) [1, 2, 3, 4, 5, 6, 7, 8, 9, 10, 11, 12],
       pg_structure = emptyStructure, pg_platform = ''Web'' \<rparr>"

definition rolePage :: page where
  "rolePage =
     \<lparr> pg_url = ''https://chat.example/c/1'', pg_title = ''Chat'',
       pg_elements = map (messageDiv [(''role'', ''listitem'')]) [1, 2, 3, 4, 5, 6, 7, 8, 9, 10, 11, 12],
       pg_structure = emptyStructure, pg_platform = ''Web'' \<rparr>"

text \<open>Two scans that follow one another and take their snapshots within the same
  millisecond, a scan one millisecond later, and the tab of the example page.\<close>

definition firstClock :: scanClock where
  "firstClock = \<lparr> atStart = 1700000000000, atSnapshot = 1700000000000, atEnd = 1700000000000 \<rparr>"

definition sameMsClock :: scanClock where
  "sameMsClock = \<lparr> atStart = 1700000000000, atSnapshot = 1700000000000, atEnd = 1700000000001 \<rparr>"

definition laterClock :: scanClock where
  "laterClock = \<lparr> atStart = 1700000000001, atSnapshot = 1700000000001, atEnd = 1700000000002 \<rparr>"

definition exampleTab :: tabInfo where
  "exampleTab = \<lparr> tab_url = Some ''https://chat.example/c/1'', tab_title = None \<rparr>"

text \<open>Elements whose text ends in a no-break space, or is made of no-break spaces only.\<close>

definition nbspDiv :: "string \<Rightarrow> element" where
  "nbspDiv txt =
     \<lparr> tagName = ''DIV'', attributes = [(''role'', ''listitem'')],
       textContent = txt, children = 0,
       el_top = 0, el_left = 16, el_width = 600, el_height = 40,
       styleShown = True, inViewport = True \<rparr>"

section \<open>Properties of the persistence layer\<close>

subsection \<open>Double arithmetic at the constants of the module\<close>

lemma double_0_3: "toDouble (3 / 10) = 5404319552844595 / 18014398509481984"
  by code_simp

lemma double_0_8: "toDouble (4 / 5) = 3602879701896397 / 4503599627370496"
  by code_simp

lemma keep_1200_rat:
  "\<lfloor>toDouble (1200 * toDouble (12610078956637389 / 18014398509481984))\<rfloor> = 840"
  by code_simp

lemma keep_840_rat: "\<lfloor>toDouble (840 * toDouble (1 / 2))\<rfloor> = 420"
  by code_simp

lemma half_threshold_rat: "toDouble (1000 * (1 / 2)) = 500"
  by code_simp

lemma size_limit_rat:
  "toDouble (52428800 * (3602879701896397 / 4503599627370496)) = 41943040"
  by code_simp

lemma keepCount_1200: "keepCountOf 1200 (toDouble (3 / 10)) = 840"
  by (simp add: keepCountOf_def js_mul_def js_sub_def Math_floor_def double_0_3 keep_1200_rat)

lemma keepCount_840: "keepCountOf 840 (1 / 2) = 420"
  using keep_840_rat by (simp add: keepCountOf_def js_mul_def js_sub_def Math_floor_def)

lemma half_threshold: "js_mul (of_nat CLEANUP_THRESHOLD) (1 / 2) = 500"
  using half_threshold_rat by (simp add: js_mul_def CLEANUP_THRESHOLD_def)

lemma size_limit: "js_mul MAX_DB_SIZE (toDouble (4 / 5)) = 41943040"
  using size_limit_rat by (simp add: js_mul_def MAX_DB_SIZE_def double_0_8)

subsection \<open>The maintenance sweep\<close>

lemma filter_drop_ids:
  assumes "distinct (map g ys)"
  shows "filter (\<lambda>s. g s \<notin> set (map g (drop k ys))) ys = take k ys"
proof -
  have d: "distinct (map g (take k ys) @ map g (drop k ys))"
    using assms by (metis append_take_drop_id map_append)
  have 1: "filter (\<lambda>s. g s \<notin> set (map g (drop k ys))) (take k ys) = take k ys"
    using d by (auto simp: filter_id_conv)
  have 2: "filter (\<lambda>s. g s \<notin> set (map g (drop k ys))) (drop k ys) = []"
    by (auto simp: filter_empty_conv)
  have "filter (\<lambda>s. g s \<notin> set (map g (drop k ys))) (take k ys @ drop k ys) = take k ys"
    unfolding filter_append 1 2 by simp
  then show ?thesis by simp
qed

lemma length_remainingAfterCleanup:
  assumes "distinct (map scanId xs)"
  shows "length (remainingAfterCleanup ratio xs) = min (keepCountOf (length xs) ratio) (length xs)"
proof -
  let ?ys = "timestampIndex_getAll xs"
  let ?k = "keepCountOf (length xs) ratio"
  let ?P = "\<lambda>s. scanId s \<notin> set (map scanId (drop ?k ?ys))"
  have dys: "distinct (map scanId ?ys)"
    using assms by (simp add: timestampIndex_getAll_def distinct_map)
  have "length (filter ?P xs) = length (filter ?P ?ys)"
    by (simp add: timestampIndex_getAll_def filter_sort)
  also have "\<dots> = length (take ?k ?ys)"
    using filter_drop_ids [OF dys] by simp
  finally show ?thesis
    by (simp add: remainingAfterCleanup_def timestampIndex_getAll_def min.commute)
qed

lemma distinct_remainingAfterCleanup:
  "distinct (map scanId xs) \<Longrightarrow> distinct (map scanId (remainingAfterCleanup ratio xs))"
  by (simp add: remainingAfterCleanup_def distinct_map_filter)

lemma set_remainingAfterCleanup: "set (remainingAfterCleanup ratio xs) \<subseteq> set xs"
  by (simp add: remainingAfterCleanup_def)

lemma cleanupOldRecords_run:
  assumes "dbOpen m" "\<not> idbFails e OpCleanup" "500 < length (idb m)"
  shows "cleanupOldRecords e ratio m =
     (Inr (length (idb m) - keepCountOf (length (idb m)) ratio),
      m\<lparr>idb := remainingAfterCleanup ratio (idb m)\<rparr>)"
  using assms
  by (simp add: cleanupOldRecords_def Let_def half_threshold remainingAfterCleanup_def
      timestampIndex_getAll_def)

lemma estimateDBSize_ready:
  assumes "initialized m" "\<not> useFallback m" "dbOpen m" "\<not> idbFails e OpGetScans"
  shows "estimateDBSize_with ini e m = (Returns (jsonLengthScans e (sizeSample (idb m))), m)"
  using assms
  by (simp add: estimateDBSize_with_def getScans_with_def idb_getScans_def settled_def
      sizeSample_def Let_def)

lemma performMaintenance_over_threshold:
  assumes "initialized m" "\<not> useFallback m" "dbOpen m"
    and "\<not> idbFails e OpCount" "\<not> idbFails e OpCleanup" "\<not> idbFails e OpGetScans"
    and "1000 < length (idb m)"
  shows "performMaintenance_with ini e m =
     (let r1 = remainingAfterCleanup (toDouble (3 / 10)) (idb m)
      in if 41943040 < jsonLengthScans e (sizeSample r1)
         then (Returns (), snd (cleanupOldRecords e (1 / 2) (m\<lparr>idb := r1\<rparr>)))
         else (Returns (), m\<lparr>idb := r1\<rparr>))"
proof -
  let ?m1 = "m\<lparr>idb := remainingAfterCleanup (toDouble (3 / 10)) (idb m)\<rparr>"
  have c: "cleanupOldRecords e (toDouble (3 / 10)) m =
      (Inr (length (idb m) - keepCountOf (length (idb m)) (toDouble (3 / 10))), ?m1)"
    using assms by (intro cleanupOldRecords_run) simp_all
  have s: "estimateDBSize_with ini e ?m1 = (Returns (jsonLengthScans e (sizeSample (idb ?m1))), ?m1)"
    using assms by (intro estimateDBSize_ready) simp_all
  have lim: "(41943040 < (of_nat n :: rat)) = (41943040 < n)" for n :: nat
    by (metis of_nat_less_iff of_nat_numeral)
  show ?thesis
    using assms(2,3,4,7)
    by (simp add: performMaintenance_with_def getScanCount_def CLEANUP_THRESHOLD_def c s
        size_limit lim Let_def)
qed

lemma maintenance_1200:
  assumes "initialized m" "\<not> useFallback m" "dbOpen m"
    and "\<not> idbFails e OpCount" "\<not> idbFails e OpCleanup" "\<not> idbFails e OpGetScans"
    and "length (idb m) = 1200" "distinct (map scanId (idb m))"
  shows "\<exists>m'. performMaintenance e m = (Returns (), m')
           \<and> set (idb m') \<subseteq> set (idb m)
           \<and> length (idb m') =
               (if 41943040 < jsonLengthScans e
                     (sizeSample (remainingAfterCleanup (toDouble (3 / 10)) (idb m)))
                then 420 else 840)"
proof -
  let ?r1 = "remainingAfterCleanup (toDouble (3 / 10)) (idb m)"
  let ?m1 = "m\<lparr>idb := ?r1\<rparr>"
  have l1: "length ?r1 = 840"
    using assms(7,8) by (simp add: length_remainingAfterCleanup keepCount_1200)
  have d1: "distinct (map scanId ?r1)"
    using assms(8) by (rule distinct_remainingAfterCleanup)
  have c2: "cleanupOldRecords e (1 / 2) ?m1 =
      (Inr (length (idb ?m1) - keepCountOf (length (idb ?m1)) (1 / 2)),
       ?m1\<lparr>idb := remainingAfterCleanup (1 / 2) (idb ?m1)\<rparr>)"
    using assms l1 by (intro cleanupOldRecords_run) simp_all
  have l2: "length (remainingAfterCleanup (1 / 2) ?r1) = 420"
    using d1 l1 by (simp add: length_remainingAfterCleanup keepCount_840)
  have s2: "set (remainingAfterCleanup (1 / 2) ?r1) \<subseteq> set (idb m)"
    using set_remainingAfterCleanup [of "1 / 2" ?r1] set_remainingAfterCleanup [of _ "idb m"]
    by blast
  have pm: "performMaintenance e m =
     (if 41943040 < jsonLengthScans e (sizeSample ?r1)
      then (Returns (), snd (cleanupOldRecords e (1 / 2) ?m1))
      else (Returns (), ?m1))"
    using assms unfolding performMaintenance_def
    by (subst performMaintenance_over_threshold) (simp_all add: Let_def)
  show ?thesis
  proof (cases "41943040 < jsonLengthScans e (sizeSample ?r1)")
    case True
    then show ?thesis
      using pm c2 l2 s2 by simp
  next
    case False
    then show ?thesis
      using pm l1 set_remainingAfterCleanup [of "toDouble (3 / 10)" "idb m"] by simp
  qed
qed

text \<open>
  Claim C1, as amended. On an initialised manager that runs on the primary store and holds
  1200 records (each under its own key), with the count, cleanup and read requests
  succeeding, \<open>performMaintenance\<close> returns and leaves 840 of the stored records: the
  default ratio 0.3 keeps \<open>floor(1200 * 0.7) = 840\<close>. When the serialisation of what
  remains is still longer than 80% of the 50 MB ceiling, the second sweep with ratio 0.5
  leaves 420 of them.
\<close>

theorem maintain_1200_records_leaves_840:
  assumes "initialized m" "\<not> useFallback m" "dbOpen m"
    and "\<not> idbFails e OpCount" "\<not> idbFails e OpCleanup" "\<not> idbFails e OpGetScans"
    and "length (idb m) = 1200" "distinct (map scanId (idb m))"
  shows "\<exists>m'. performMaintenance e m = (Returns (), m')
           \<and> set (idb m') \<subseteq> set (idb m)
           \<and> length (idb m') =
               (if 41943040 < jsonLengthScans e
                     (sizeSample (remainingAfterCleanup (toDouble (3 / 10)) (idb m)))
                then 420 else 840)"
  using assms by (rule maintenance_1200)

lemma inj_exampleScan_id: "inj (\<lambda>i. scanId (exampleScan i))"
proof (rule injI)
  fix i j
  assume "scanId (exampleScan i) = scanId (exampleScan j)"
  then have "length (replicate i (CHR ''x'')) = length (replicate j (CHR ''x''))"
    by (simp add: exampleScan_def)
  then show "i = j" by simp
qed

lemma distinct_store1200: "distinct (map scanId store1200)"
proof -
  have "map scanId store1200 = map (\<lambda>i. scanId (exampleScan i)) [0..<1200]"
    by (simp add: store1200_def)
  moreover have "distinct (map (\<lambda>i. scanId (exampleScan i)) [0..<1200])"
    using inj_exampleScan_id by (simp add: distinct_map inj_on_def inj_def)
  ultimately show ?thesis by simp
qed

lemma length_store1200: "length store1200 = 1200"
  by (simp add: store1200_def)

lemma sizeSample_small: "\<not> 41943040 < jsonLengthScans (quietEnv t) (sizeSample xs)"
proof -
  have "length (sizeSample xs) \<le> 1000"
    by (simp add: sizeSample_def slice_def)
  then show ?thesis by (simp add: quietEnv_def)
qed

theorem maintain_1200_records_leaves_840_witness:
  "\<exists>m'. performMaintenance (quietEnv 1700000100000) (readyManager store1200) = (Returns (), m')
      \<and> set (idb m') \<subseteq> set store1200 \<and> length (idb m') = 840"
  using maintain_1200_records_leaves_840
    [of "readyManager store1200" "quietEnv 1700000100000"]
    distinct_store1200 length_store1200 sizeSample_small [of 1700000100000]
  by (simp add: readyManager_def quietEnv_def)

text \<open>The claim as stated fails: 1200 records, threshold 1000, and the count after
  maintenance is 840, which is more than 700.\<close>

theorem maintain_1200_records_counterexample:
  "fst (performMaintenance (quietEnv 1700000100000) (readyManager store1200)) = Returns ()
   \<and> length (idb (snd (performMaintenance (quietEnv 1700000100000) (readyManager store1200)))) = 840
   \<and> \<not> length (idb (snd (performMaintenance (quietEnv 1700000100000) (readyManager store1200)))) \<le> 700"
proof -
  obtain m' where "performMaintenance (quietEnv 1700000100000) (readyManager store1200) = (Returns (), m')"
    and "length (idb m') =
      (if 41943040 < jsonLengthScans (quietEnv 1700000100000)
            (sizeSample (remainingAfterCleanup (toDouble (3 / 10)) (idb (readyManager store1200))))
       then 420 else 840)"
    using maintenance_1200 [of "readyManager store1200" "quietEnv 1700000100000"]
      distinct_store1200 length_store1200
    by (auto simp: readyManager_def quietEnv_def)
  then show ?thesis
    using sizeSample_small [of 1700000100000] by simp
qed

subsection \<open>Writes in fallback mode\<close>

lemma storeScan_in_fallback:
  assumes "initialized m" "useFallback m"
    and "validateScanData e d = Inr True"
    and "\<not> chromeFails e ChromeGet" "\<not> chromeFails e ChromeSet"
  shows "storeScan e d m =
      (Returns (scanId (sanitizeScanData e d)),
       m\<lparr>chromeStore := Some (take 500 (sortNewestFirst (fallbackList m @ [sanitizeScanData e d])))\<rparr>)"
  using assms by (simp add: storeScan_def fallback_storeScan_def settled_def Let_def)

lemma count_list_sortNewestFirst: "count_list (sortNewestFirst xs) x = count_list xs x"
  by (simp add: sortNewestFirst_def count_list_eq_length_filter filter_sort)

text \<open>
  Claim C10. In fallback mode a \<open>storeScan\<close> call (with data that passes validation,
  and \<open>chrome.storage\<close> reads and writes that succeed) appends the sanitized record to
  the fallback list without any duplicate check: the list is only re-sorted newest first
  and cut to 500 entries, so below the cap the number of copies of the record grows by
  one, also when an identical record is already there.
\<close>

theorem fallback_storeScan_skips_duplicate_check:
  assumes "initialized m" "useFallback m"
    and "validateScanData e d = Inr True"
    and "\<not> chromeFails e ChromeGet" "\<not> chromeFails e ChromeSet"
  shows "storeScan e d m =
      (Returns (scanId (sanitizeScanData e d)),
       m\<lparr>chromeStore := Some (take 500 (sortNewestFirst (fallbackList m @ [sanitizeScanData e d])))\<rparr>)
    \<and> (length (fallbackList m) < 500 \<longrightarrow>
         count_list (fallbackList (snd (storeScan e d m))) (sanitizeScanData e d)
           = count_list (fallbackList m) (sanitizeScanData e d) + 1)"
proof -
  have st: "storeScan e d m =
      (Returns (scanId (sanitizeScanData e d)),
       m\<lparr>chromeStore := Some (take 500 (sortNewestFirst (fallbackList m @ [sanitizeScanData e d])))\<rparr>)"
    using assms by (rule storeScan_in_fallback)
  have "length (fallbackList m) < 500 \<Longrightarrow>
      take 500 (sortNewestFirst (fallbackList m @ [sanitizeScanData e d]))
        = sortNewestFirst (fallbackList m @ [sanitizeScanData e d])"
    by (simp add: sortNewestFirst_def)
  then show ?thesis
    unfolding st by (simp add: fallbackList_def count_list_sortNewestFirst)
qed

lemma quietEnv_sel:
  "now (quietEnv t) = t"
  "nowISO (quietEnv t) = ''2025-01-01T00:00:00.000Z''"
  "random9 (quietEnv t) = ''k3x9q2m1z''"
  "jsonLength (quietEnv t) d = 300"
  "jsonLengthScans (quietEnv t) xs = 2 + 300 * length xs"
  "openResult (quietEnv t) = OpenSuccess"
  "idbFails (quietEnv t) op = False"
  "chromeFails (quietEnv t) cop = False"
  by (simp_all add: quietEnv_def)

lemma sanitize_exampleData:
  "sanitizeScanData (quietEnv t) exampleData =
     \<lparr> scanId = ''scan_a'', url = Some ''https://chat.example/c/1'',
       title = Some ''Project chat'', timestamp = 1700000000000, snippet = None,
       platform = Some ''Web'', createdAt = ''2025-01-01T00:00:00.000Z'', version = ''1.0'',
       password = None, token = None, apiKey = None, cookie = None \<rparr>"
  by (simp add: sanitizeScanData_def exampleData_def quietEnv_def truthy_def truthyNum_def
      dropSensitive_def)

lemma validate_exampleData: "validateScanData (quietEnv t) exampleData = Inr True"
  by (simp add: validateScanData_def exampleData_def quietEnv_def truthy_def)

theorem fallback_storeScan_skips_duplicate_check_witness:
  "validateScanData (quietEnv 1700000060000) exampleData = Inr True
   \<and> fallbackList (snd (storeScan (quietEnv 1700000060000) exampleData
        (fallbackManager [sanitizeScanData (quietEnv 1700000000000) exampleData])))
      = [sanitizeScanData (quietEnv 1700000000000) exampleData,
         sanitizeScanData (quietEnv 1700000000000) exampleData]"
  using fallback_storeScan_skips_duplicate_check
    [of "fallbackManager [sanitizeScanData (quietEnv 1700000000000) exampleData]"
        "quietEnv 1700000060000" exampleData]
    validate_exampleData [of 1700000060000]
  by (simp add: sanitize_exampleData fallbackManager_def fallbackList_def sortNewestFirst_def
      quietEnv_sel)


subsection \<open>Fallback after a failed open\<close>

lemma init_open_failure:
  assumes "\<not> initialized m" "initializationPromise m = NotStarted"
    and "openResult e = OpenError"
  shows "init e m =
     (Returns (), m\<lparr>initialized := True, initializationPromise := Resolved,
                      useFallback := True, fallbackInitialized := True\<rparr>)"
  using assms
  by (simp add: init_def initialize_def openDatabase_def fallback_init_def)










lemma openErrorEnv_sel:
  "openResult openErrorEnv = OpenError"
  "chromeFails openErrorEnv cop = False"
  "idbFails openErrorEnv op = False"
  by (simp_all add: openErrorEnv_def quietEnv_def)



text \<open>A first \<open>storeScan\<close> on a manager that is not initialised runs \<open>init\<close> itself:
  when the open fails, the same call stores the record in the fallback.\<close>

lemma storeScan_initialises_into_fallback:
  assumes "\<not> initialized m" "initializationPromise m = NotStarted"
    and "openResult e = OpenError"
    and "validateScanData e d = Inr True"
    and "\<not> chromeFails e ChromeGet" "\<not> chromeFails e ChromeSet"
  shows "fst (storeScan e d m) = Returns (scanId (sanitizeScanData e d))
     \<and> useFallback (snd (storeScan e d m))
     \<and> chromeStore (snd (storeScan e d m))
          = Some (take 500 (sortNewestFirst (fallbackList m @ [sanitizeScanData e d])))"
  using assms init_open_failure [OF assms(1,2,3)]
  by (simp add: storeScan_def fallback_storeScan_def settled_def Let_def fallbackList_def)

text \<open>With the fallback engaged after a failed open, \<open>getScansByUrl\<close> is not served by
  the fallback: it has no \<open>useFallback\<close> branch and fails on the missing database.\<close>

lemma getScansByUrl_not_routed:
  "fst (getScansByUrl (quietEnv t) u limit (snd (init openErrorEnv (newManager [] None))))
     = Raises (DBError ''URL query setup failed'' ''getScansByUrl'')"
proof -
  have i: "init openErrorEnv (newManager [] None) =
      (Returns (), (newManager [] None)\<lparr>initialized := True, initializationPromise := Resolved,
                      useFallback := True, fallbackInitialized := True\<rparr>)"
    by (rule init_open_failure) (simp_all add: newManager_def openErrorEnv_sel)
  show ?thesis
    unfolding i by (simp add: getScansByUrl_def newManager_def)
qed

text \<open>
  When the open request never delivers an event, the 10 s timer does not reject the
  promise of \<open>openDatabase\<close>: \<open>init\<close> does not return, the fallback is not engaged,
  and a \<open>storeScan\<close> call that has to initialise the manager does not return either.
\<close>

lemma init_hangs_when_open_times_out:
  assumes "\<not> initialized m" "initializationPromise m = NotStarted"
    and "openResult e = OpenTimeout"
  shows "fst (init e m) = Hangs" "useFallback (snd (init e m)) = useFallback m"
    and "fst (storeScan e d m) = Hangs"
  using assms
  by (simp_all add: init_def initialize_def openDatabase_def storeScan_def)

lemma init_timeoutEnv: "fst (init timeoutEnv (newManager [] None)) = Hangs"
  by (rule init_hangs_when_open_times_out) (simp_all add: newManager_def timeoutEnv_def)

subsection \<open>Initialisation on a database that opens\<close>

text \<open>
  When the database opens, \<open>_initialize\<close> awaits \<open>performMaintenance\<close> before it sets
  \<open>initialized\<close>; \<open>estimateDBSize\<close> calls \<open>getScans\<close>, which awaits \<open>init()\<close>,
  that is the pending promise of \<open>_initialize\<close> itself. So \<open>init\<close> does not return
  unless the count (or a due cleanup) fails first; a manager on the primary store is
  reached through such a failure.
\<close>

lemma init_hangs_when_open_succeeds:
  assumes "\<not> initialized m" "initializationPromise m = NotStarted" "\<not> useFallback m"
    and "openResult e = OpenSuccess"
    and "\<not> idbFails e OpCount" "length (idb m) \<le> 1000"
  shows "fst (init e m) = Hangs"
  using assms
  by (simp add: init_def initialize_def openDatabase_def performMaintenance_with_def
      getScanCount_def CLEANUP_THRESHOLD_def estimateDBSize_with_def getScans_with_def
      awaitInitializationPromise_def)

lemma init_reaches_primary:
  assumes "openResult e = OpenSuccess" "idbFails e OpCount"
  shows "init e (newManager stored None) = (Returns (), readyManager stored)"
  using assms
  by (simp add: init_def initialize_def openDatabase_def performMaintenance_with_def
      getScanCount_def newManager_def readyManager_def)

subsection \<open>Duplicate suppression on the primary store\<close>

lemma find_first_match:
  assumes "s \<in> set xs" "P s"
  shows "\<exists>s'. find P xs = Some s' \<and> s' \<in> set xs \<and> P s'"
proof (cases "find P xs")
  case None
  then show ?thesis using assms by (auto simp: find_None_iff)
next
  case (Some s')
  then show ?thesis by (auto simp: find_Some_iff)
qed

lemma recent_by_url_stored:
  assumes "s \<in> set (take n (sortNewestFirst (urlIndex_getAll u xs)))"
  shows "s \<in> set xs \<and> url s = Some u"
proof -
  have "s \<in> set (sortNewestFirst (urlIndex_getAll u xs))"
    using assms by (rule in_set_takeD)
  then show ?thesis
    by (simp add: sortNewestFirst_def urlIndex_getAll_def)
qed

lemma storeScan_duplicate:
  assumes "initialized m" "\<not> useFallback m" "dbOpen m" "\<not> idbFails e OpGetScansByUrl"
    and "validateScanData e d = Inr True"
    and "sd_url d = Some u" "u \<noteq> []"
    and "find (inDuplicateWindow e d) (take 5 (sortNewestFirst (urlIndex_getAll u (idb m)))) = Some s'"
    and "scanId s' \<noteq> []"
  shows "storeScan e d m = (Returns (scanId s'), m)"
  using assms
  by (simp add: storeScan_def storeScan_primary_def checkForDuplicate_def getScansByUrl_def
      truthy_def)

text \<open>
  Claim C2, as amended. On an initialised manager that runs on the primary store, let a
  stored record \<open>s\<close> be among the five most recent records with the url of the new data,
  carry a timestamp less than 30 minutes before the clock of the call, and be a substantial
  duplicate of the new data: the same url, and titles whose word overlap is strictly
  greater than 0.8 (or a title missing on either side). Then \<open>storeScan\<close> returns the id
  of a stored record with these properties and leaves the store as it was; it is the id of
  \<open>s\<close> itself when no other recent record qualifies.
\<close>

theorem storeScan_returns_stored_id_for_duplicate:
  assumes "initialized m" "\<not> useFallback m" "dbOpen m" "\<not> idbFails e OpGetScansByUrl"
    and "validateScanData e d = Inr True"
    and "sd_url d = Some u" "u \<noteq> []"
    and "s \<in> set (take 5 (sortNewestFirst (urlIndex_getAll u (idb m))))"
    and "now e - timestamp s < DUPLICATE_TTL_MS"
    and "isSubstantialDuplicate s d"
    and "\<forall>x \<in> set (idb m). scanId x \<noteq> []"
  shows "\<exists>s'. s' \<in> set (idb m) \<and> url s' = Some u
           \<and> now e - timestamp s' < DUPLICATE_TTL_MS \<and> isSubstantialDuplicate s' d
           \<and> storeScan e d m = (Returns (scanId s'), m)
           \<and> ((\<forall>x \<in> set (take 5 (sortNewestFirst (urlIndex_getAll u (idb m)))).
                  inDuplicateWindow e d x \<longrightarrow> x = s) \<longrightarrow> s' = s)"
proof -
  let ?recent = "take 5 (sortNewestFirst (urlIndex_getAll u (idb m)))"
  have "inDuplicateWindow e d s"
    using assms(9,10) by (simp add: inDuplicateWindow_def)
  then obtain s' where f: "find (inDuplicateWindow e d) ?recent = Some s'"
    and r: "s' \<in> set ?recent" and w: "inDuplicateWindow e d s'"
    using find_first_match [OF assms(8)] by blast
  have st: "s' \<in> set (idb m) \<and> url s' = Some u"
    using r by (rule recent_by_url_stored)
  then have "scanId s' \<noteq> []"
    using assms(11) by blast
  then have "storeScan e d m = (Returns (scanId s'), m)"
    using assms(1-7) f by (intro storeScan_duplicate) simp_all
  then show ?thesis
    using st r w by (auto simp: inDuplicateWindow_def)
qed

lemma firstScan_closeData_duplicate: "isSubstantialDuplicate firstScan closeData"
  by code_simp

lemma secondData_similarity:
  "calculateSimilarity ''alpha beta gamma delta'' ''alpha beta gamma delta epsilon'' = toDouble (4 / 5)"
  by code_simp

lemma firstScan_secondData_not_duplicate: "\<not> isSubstantialDuplicate firstScan secondData"
  by code_simp

text \<open>Upper-case Latin-1 letters are folded and the no-break space separates words: the
  two titles have four and five distinct words, four of them shared.\<close>

lemma accentTitle_similarity:
  "calculateSimilarity accentTitle accentTitleLonger = toDouble (4 / 5)"
  by code_simp

lemma recent_firstScan:
  "take 5 (sortNewestFirst (urlIndex_getAll ''https://chat.example/c/1'' [firstScan])) = [firstScan]"
  by (simp add: sortNewestFirst_def urlIndex_getAll_def firstScan_def)

theorem storeScan_returns_stored_id_for_duplicate_witness:
  "storeScan (quietEnv 1700000060000) closeData (readyManager [firstScan])
     = (Returns ''scan_a'', readyManager [firstScan])"
proof -
  have v: "validateScanData (quietEnv 1700000060000) closeData = Inr True"
    by (simp add: validateScanData_def closeData_def secondData_def quietEnv_sel truthy_def)
  have u: "sd_url closeData = Some ''https://chat.example/c/1''"
    by (simp add: closeData_def secondData_def)
  have t: "now (quietEnv 1700000060000) - timestamp firstScan < DUPLICATE_TTL_MS"
    by (simp add: quietEnv_sel firstScan_def DUPLICATE_TTL_MS_def)
  have "\<exists>s'. storeScan (quietEnv 1700000060000) closeData (readyManager [firstScan])
            = (Returns (scanId s'), readyManager [firstScan])
          \<and> ((\<forall>x \<in> set [firstScan]. inDuplicateWindow (quietEnv 1700000060000) closeData x
                \<longrightarrow> x = firstScan) \<longrightarrow> s' = firstScan)"
    using storeScan_returns_stored_id_for_duplicate
      [of "readyManager [firstScan]" "quietEnv 1700000060000" closeData
          "''https://chat.example/c/1''" firstScan, OF _ _ _ _ v u _ _ t firstScan_closeData_duplicate]
    by (simp add: readyManager_def quietEnv_sel recent_firstScan) (simp add: firstScan_def)
  then show ?thesis
    by (auto simp: firstScan_def)
qed

lemma performMaintenance_small:
  assumes "initialized m" "\<not> useFallback m" "dbOpen m"
    and "\<not> idbFails e OpCount" "\<not> idbFails e OpGetScans"
    and "length (idb m) \<le> 1000" "jsonLengthScans e (sizeSample (idb m)) \<le> 41943040"
  shows "performMaintenance e m = (Returns (), m)"
proof -
  have s: "estimateDBSize_with (init e) e m = (Returns (jsonLengthScans e (sizeSample (idb m))), m)"
    using assms by (intro estimateDBSize_ready) simp_all
  have lim: "(41943040 < (of_nat n :: rat)) = (41943040 < n)" for n :: nat
    by (metis of_nat_less_iff of_nat_numeral)
  show ?thesis
    using assms
    by (simp add: performMaintenance_def performMaintenance_with_def getScanCount_def
        CLEANUP_THRESHOLD_def s size_limit lim)
qed

text \<open>The claim as stated fails: the stored record and the new data share the url, are
  one minute apart, and their titles have similarity exactly 0.8; the second
  \<open>storeScan\<close> call creates a second record and returns its new id.\<close>

theorem storeScan_duplicate_counterexample:
  "sd_url secondData = url firstScan
   \<and> now (quietEnv 1700000060000) - timestamp firstScan < DUPLICATE_TTL_MS
   \<and> calculateSimilarity (the (title firstScan)) (the (sd_title secondData)) = toDouble (4 / 5)
   \<and> fst (storeScan (quietEnv 1700000060000) secondData (readyManager [firstScan])) = Returns ''scan_b''
   \<and> map scanId (idb (snd (storeScan (quietEnv 1700000060000) secondData (readyManager [firstScan]))))
       = [''scan_a'', ''scan_b'']"
proof -
  let ?e = "quietEnv 1700000060000"
  let ?new = "sanitizeScanData ?e secondData"
  let ?m2 = "(readyManager [firstScan])\<lparr>idb := [firstScan, ?new]\<rparr>"
  have id2: "scanId ?new = ''scan_b''"
    by (simp add: sanitizeScanData_def secondData_def truthy_def)
  have dup: "checkForDuplicate ?e secondData (readyManager [firstScan])
      = (Returns None, readyManager [firstScan])"
    using firstScan_secondData_not_duplicate
    by (simp add: checkForDuplicate_def getScansByUrl_def readyManager_def quietEnv_sel
        secondData_def truthy_def recent_firstScan inDuplicateWindow_def)
  have ins: "insertScan ?e ?new (readyManager [firstScan]) = (Inr ''scan_b'', ?m2)"
    by (simp add: insertScan_def readyManager_def quietEnv_sel id2) (simp add: firstScan_def)
  have "length (sizeSample [firstScan, ?new]) \<le> 1000"
    by (simp add: sizeSample_def slice_def)
  then have pm: "performMaintenance ?e ?m2 = (Returns (), ?m2)"
    by (intro performMaintenance_small) (simp_all add: readyManager_def quietEnv_sel)
  have v: "validateScanData ?e secondData = Inr True"
    by (simp add: validateScanData_def secondData_def quietEnv_sel truthy_def)
  have "storeScan ?e secondData (readyManager [firstScan]) = (Returns ''scan_b'', ?m2)"
    using v dup ins pm
    by (simp add: storeScan_def storeScan_primary_def truthy_def)
      (simp add: readyManager_def)
  then show ?thesis
    using secondData_similarity id2
    by (simp add: quietEnv_sel DUPLICATE_TTL_MS_def) (simp add: firstScan_def secondData_def)
qed

subsection \<open>The read paths\<close>

lemma getScans_query_failure:
  assumes "initialized m" "\<not> useFallback m" "dbOpen m" "idbFails e OpGetScans"
  shows "getScans e query limit offset m = (Raises (DBError ''Query failed'' ''getScans''), m)"
  using assms
  by (simp add: getScans_def getScans_with_def idb_getScans_def settled_def)

text \<open>
  Claim C8, as amended. The reads of \<open>StorageManager\<close> never raise: \<open>getAll\<close>
  returns the stored items, and on a storage error the values of the in-memory cache,
  leaving the state as it was; \<open>getItem\<close> always returns a value. \<open>getScans\<close> of
  \<open>IndexedDBManager\<close> is different: a failing query on the primary store is raised to
  the caller as a \<open>DBError\<close>.
\<close>

theorem storage_reads_never_raise_but_getScans_does:
  "(\<exists>items. fst (getAll se st) = Inr items)
   \<and> (se_lastError se \<noteq> None \<longrightarrow>
        getAll se st = (Inr (map (\<lambda>(key, val). (key, ci_value val)) (sm_cache st)), st))
   \<and> (se_lastError se = None \<longrightarrow> fst (getAll se st) = Inr (sm_items st))
   \<and> (\<exists>v. fst (getItem se key dflt st) = Inr v)
   \<and> (initialized m \<and> \<not> useFallback m \<and> dbOpen m \<and> idbFails e OpGetScans \<longrightarrow>
        getScans e query limit offset m = (Raises (DBError ''Query failed'' ''getScans''), m))"
proof -
  have 1: "\<exists>items. fst (getAll se st) = Inr items"
    by (simp add: getAll_def chromeGetAll_def split: option.splits)
  have 2: "se_lastError se \<noteq> None \<longrightarrow>
        getAll se st = (Inr (map (\<lambda>(key, val). (key, ci_value val)) (sm_cache st)), st)"
    by (auto simp: getAll_def chromeGetAll_def)
  have 3: "se_lastError se = None \<longrightarrow> fst (getAll se st) = Inr (sm_items st)"
    by (simp add: getAll_def chromeGetAll_def)
  have 4: "\<exists>v. fst (getItem se key dflt st) = Inr v"
    by (simp add: getItem_def Let_def split: option.splits)
  show ?thesis
    using 1 2 3 4 getScans_query_failure by blast
qed

theorem storage_reads_never_raise_but_getScans_does_witness:
  "getAll failingRead cachedStorage = (Inr [(''liveScanConfig'', ''cfg1'')], cachedStorage)
   \<and> getScans queryFailEnv [] 100 0 (readyManager [firstScan])
       = (Raises (DBError ''Query failed'' ''getScans''), readyManager [firstScan])"
  using storage_reads_never_raise_but_getScans_does
    [of failingRead cachedStorage "''liveScanConfig''" "''none''" "readyManager [firstScan]"
        queryFailEnv "[]" 100 0]
  by (simp add: failingRead_def cachedStorage_def readyManager_def queryFailEnv_def quietEnv_def)

text \<open>The claim as stated fails: a query error of the primary store reaches the caller
  of \<open>getScans\<close>.\<close>

theorem getScans_raises_counterexample:
  "fst (getScans queryFailEnv [] 100 0 (readyManager [firstScan]))
     = Raises (DBError ''Query failed'' ''getScans'')"
  by (simp add: getScans_query_failure readyManager_def queryFailEnv_def quietEnv_def)

text \<open>
  Which records the sweep deletes: \<open>scans.slice(keepCount)\<close> of the ascending timestamp
  index, so every record it deletes is at least as new as every record it keeps. (The
  comment in the source announces the opposite: ``Keep newest (1-ratio) percent of
  records''.)
\<close>

lemma cleanup_deletes_newest:
  assumes "distinct (map scanId xs)"
    and "kept \<in> set (remainingAfterCleanup ratio xs)"
    and "gone \<in> set xs" "gone \<notin> set (remainingAfterCleanup ratio xs)"
  shows "timestamp kept \<le> timestamp gone"
proof -
  let ?ys = "timestampIndex_getAll xs"
  let ?k = "keepCountOf (length xs) ratio"
  let ?P = "\<lambda>s. scanId s \<notin> set (map scanId (drop ?k ?ys))"
  have dys: "distinct (map scanId ?ys)"
    using assms(1) by (simp add: timestampIndex_getAll_def distinct_map)
  have sys: "set ?ys = set xs"
    by (simp add: timestampIndex_getAll_def)
  have "set (remainingAfterCleanup ratio xs) = {s \<in> set ?ys. ?P s}"
    using sys by (auto simp: remainingAfterCleanup_def)
  also have "\<dots> = set (filter ?P ?ys)" by simp
  also have "\<dots> = set (take ?k ?ys)"
    using filter_drop_ids [OF dys] by simp
  finally have rem: "set (remainingAfterCleanup ratio xs) = set (take ?k ?ys)" .
  have k: "kept \<in> set (take ?k ?ys)" using assms(2) rem by simp
  have "gone \<in> set (take ?k ?ys @ drop ?k ?ys)" using assms(3) sys by simp
  then have "gone \<in> set (take ?k ?ys) \<union> set (drop ?k ?ys)" by (simp only: set_append)
  then have g: "gone \<in> set (drop ?k ?ys)" using assms(4) rem by blast
  have "sorted (map (\<lambda>s. (timestamp s, scanId s)) (take ?k ?ys @ drop ?k ?ys))"
    by (simp add: timestampIndex_getAll_def)
  then have "(timestamp kept, scanId kept) \<le> (timestamp gone, scanId gone)"
    using k g unfolding map_append sorted_append by auto
  then show ?thesis
    by (auto simp: less_eq_prod_def)
qed

section \<open>Properties of the fragment identity\<close>

lemma floor_rat_numeral_div:
  "\<lfloor>(numeral a :: rat) / numeral b\<rfloor> = numeral a div numeral b"
  by (metis floor_divide_of_int_eq of_int_numeral)

text \<open>
  What the identity gets right: two fragments with identical content prefix (the first 50
  characters) and identical rounded position, identified on the same page, have the same
  hash component for every platform tag, and the same id when both ids are computed at
  the same clock value.
\<close>

lemma generateMessageId_same_clock:
  assumes "take 50 content1 = take 50 content2"
    and "getElementPosition el1 = getElementPosition el2"
  shows "messageHash el1 platformTag content1 = messageHash el2 platformTag content2"
    and "detectPlatform d = Inr platformTag \<Longrightarrow>
           generateMessageId e d el1 content1 = generateMessageId e d el2 content2"
  using assms
  by (simp_all add: generateMessageId_def messageHash_def identityString_def)

lemma position_exampleRect: "getElementPosition (Some exampleRect) = ''121_16''"
  by (simp add: getElementPosition_def exampleRect_def Math_round_def intToString_def
      digitChar_def floor_rat_numeral_div)

lemma position_nearbyRect: "getElementPosition (Some nearbyRect) = ''121_16''"
  by (simp add: getElementPosition_def nearbyRect_def Math_round_def intToString_def
      digitChar_def floor_rat_numeral_div)

lemma detectPlatform_chatgptDom: "detectPlatform chatgptDom = Inr ''ChatGPT''"
  by (simp add: detectPlatform_def chatgptDom_def)

text \<open>On a page that matches no host name and none of the selectors of the first five
  platforms, the loop reaches the string stored for \<open>discord\<close> and \<open>detectPlatform\<close>
  throws; \<open>generateMessageId\<close> then returns the fallback id with its random part.\<close>

lemma detectPlatform_plainDom: "detectPlatform plainDom = Inl (Error ''SyntaxError'')"
  by (simp add: detectPlatform_def plainDom_def platformSelectors_def querySelector_def dquote_def)

lemma generateMessageId_plainDom:
  "generateMessageId (idEnvAt 1700000000000) plainDom (Some exampleRect) ''Hello there''
     = ''msg_fallback_1700000000000_k3x9q2m1z''"
  by (simp add: generateMessageId_def detectPlatform_plainDom idEnvAt_def intToString_def
      digitChar_def)

lemma hash_hello: "hashString ''Hello there_121_16_ChatGPT'' = 852752721"
  by (simp add: hashString_def hashStep_def charCode_def)

lemma messageHash_hello: "messageHash (Some exampleRect) ''ChatGPT'' ''Hello there'' = ''e3pg7l''"
  by (simp add: messageHash_def identityString_def position_exampleRect hash_hello
      absToString36_def digitChar_def)

lemma generateMessageId_hello_0:
  "generateMessageId (idEnvAt 1700000000000) chatgptDom (Some exampleRect) ''Hello there''
     = ''msg_e3pg7l_loyw3v28''"
  by (simp add: generateMessageId_def detectPlatform_chatgptDom messageHash_hello idEnvAt_def
      intToString_def digitChar_def)

lemma generateMessageId_hello_1:
  "generateMessageId (idEnvAt 1700000000001) chatgptDom (Some exampleRect) ''Hello there''
     = ''msg_e3pg7l_loyw3v29''"
  by (simp add: generateMessageId_def detectPlatform_chatgptDom messageHash_hello idEnvAt_def
      intToString_def digitChar_def)

text \<open>
  Claim C3. The identity is meant to be one id for two fragments with identical content
  prefix, rounded position and platform tag, whenever it is computed; the duplicate
  filters \<open>messageCache\<close> and \<open>seenMessages\<close> are keyed by it. \<open>generateMessageId\<close>
  misses that: the id ends with \<open>Date.now()\<close> in base 36. One fragment of a ChatGPT page,
  identified at two clock values one millisecond apart, gets two ids, and the filter that
  holds the first id reports the fragment a second time.
\<close>

theorem generateMessageId_differs_across_milliseconds:
  "generateMessageId (idEnvAt 1700000000000) chatgptDom (Some exampleRect) ''Hello there''
     = ''msg_e3pg7l_loyw3v28''
   \<and> generateMessageId (idEnvAt 1700000000001) chatgptDom (Some exampleRect) ''Hello there''
     = ''msg_e3pg7l_loyw3v29''
   \<and> reportUnlessCached
        (generateMessageId (idEnvAt 1700000000001) chatgptDom (Some exampleRect) ''Hello there'')
        (snd (reportUnlessCached
           (generateMessageId (idEnvAt 1700000000000) chatgptDom (Some exampleRect) ''Hello there'') []))
     = (True, [''msg_e3pg7l_loyw3v28'', ''msg_e3pg7l_loyw3v29''])"
  by (simp add: generateMessageId_hello_0 generateMessageId_hello_1 reportUnlessCached_def)

section \<open>Properties of the hybrid merge\<close>

lemma coordinator_merge_statistics:
  assumes "coordinator_mergeScanData e session live h = (Inr r, h')"
  shows "totalMessages (statistics r) = deepMessages (statistics r) + liveMessages (statistics r)
       \<and> liveMessages (statistics r) = ld_messageCount live"
  using assms
  by (auto simp: coordinator_mergeScanData_def Let_def split: if_splits sum.splits option.splits prod.splits)

lemma scanSystem_merge_statistics:
  assumes "scanSystem_mergeScanData e deepId liveId h = (Inr r, h')"
  shows "totalMessages (statistics r) = deepMessages (statistics r) + liveMessages (statistics r)"
  using assms
  by (auto simp: scanSystem_mergeScanData_def Let_def split: if_splits sum.splits option.splits prod.splits)

lemma coordinator_merge_returns:
  assumes "dbHandlerAttached h" "\<not> me_readFails e" "\<not> me_saveFails e"
    and "hs_deepScanId session = Some k" "map_of (deepScans h) k = Some deep"
  shows "\<exists>r. fst (coordinator_mergeScanData e session live h) = Inr r
           \<and> deepMessages (statistics r) = ds_messageCount deep
           \<and> liveMessages (statistics r) = ld_messageCount live"
  using assms
  by (simp add: coordinator_mergeScanData_def getDeepScan_def saveMergedScan_def Let_def)

text \<open>
  Claim C5. Every merge of a deep scan with live-session data that produces a result, by
  \<open>DeepScanCoordinator.mergeScanData\<close> or by \<open>ScanSystem.mergeScanData\<close>, gives
  statistics with \<open>totalMessages = deepMessages + liveMessages\<close>; and the coordinator's
  merge does produce a result, with the counts of the stored deep scan and of the live
  data, whenever the handler is attached, the deep scan is stored, and reading and saving
  succeed.
\<close>

theorem merge_total_is_deep_plus_live:
  "(coordinator_mergeScanData e session live h = (Inr r, h') \<longrightarrow>
      totalMessages (statistics r) = deepMessages (statistics r) + liveMessages (statistics r))
   \<and> (scanSystem_mergeScanData e deepId liveId h = (Inr r2, h2) \<longrightarrow>
      totalMessages (statistics r2) = deepMessages (statistics r2) + liveMessages (statistics r2))
   \<and> (dbHandlerAttached h \<and> \<not> me_readFails e \<and> \<not> me_saveFails e
        \<and> hs_deepScanId session = Some k \<and> map_of (deepScans h) k = Some deep \<longrightarrow>
      (\<exists>r3. fst (coordinator_mergeScanData e session live h) = Inr r3
           \<and> deepMessages (statistics r3) = ds_messageCount deep
           \<and> liveMessages (statistics r3) = ld_messageCount live))"
  using coordinator_merge_statistics scanSystem_merge_statistics coordinator_merge_returns
  by blast

theorem merge_total_is_deep_plus_live_witness:
  "(\<exists>r h'. coordinator_mergeScanData exampleMergeEnv exampleHybrid exampleLive exampleHandler = (Inr r, h')
       \<and> totalMessages (statistics r) = 15 \<and> deepMessages (statistics r) = 12
       \<and> liveMessages (statistics r) = 3)
   \<and> (\<exists>r2 h2. scanSystem_mergeScanData exampleMergeEnv ''deep_1'' ''hybrid_1'' exampleHandler = (Inr r2, h2)
       \<and> totalMessages (statistics r2) = 12 \<and> deepMessages (statistics r2) = 12
       \<and> liveMessages (statistics r2) = 0)"
proof -
  have pre: "dbHandlerAttached exampleHandler \<and> \<not> me_readFails exampleMergeEnv
      \<and> \<not> me_saveFails exampleMergeEnv \<and> hs_deepScanId exampleHybrid = Some ''deep_1''
      \<and> map_of (deepScans exampleHandler) ''deep_1'' = Some exampleDeep"
    by (simp add: exampleHandler_def exampleMergeEnv_def exampleHybrid_def)
  obtain r where c: "fst (coordinator_mergeScanData exampleMergeEnv exampleHybrid exampleLive exampleHandler) = Inr r"
    and cd: "deepMessages (statistics r) = ds_messageCount exampleDeep"
    and cl: "liveMessages (statistics r) = ld_messageCount exampleLive"
    using merge_total_is_deep_plus_live
      [of exampleMergeEnv exampleHybrid exampleLive exampleHandler _ _ "''deep_1''" "''hybrid_1''"
          _ _ "''deep_1''" exampleDeep] pre
    by blast
  obtain h' where c': "coordinator_mergeScanData exampleMergeEnv exampleHybrid exampleLive exampleHandler = (Inr r, h')"
    using c by (cases "coordinator_mergeScanData exampleMergeEnv exampleHybrid exampleLive exampleHandler") simp
  obtain r2 h2 where s: "scanSystem_mergeScanData exampleMergeEnv ''deep_1'' ''hybrid_1'' exampleHandler = (Inr r2, h2)"
    and sd: "deepMessages (statistics r2) = 12" and sl: "liveMessages (statistics r2) = 0"
    by (simp add: scanSystem_mergeScanData_def getDeepScan_def getLiveSession_def
        saveMergedScan_def Let_def orZero_def
        exampleMergeEnv_def exampleHandler_def exampleDeep_def)
  have "totalMessages (statistics r) = deepMessages (statistics r) + liveMessages (statistics r)"
    and "totalMessages (statistics r2) = deepMessages (statistics r2) + liveMessages (statistics r2)"
    using merge_total_is_deep_plus_live
      [of exampleMergeEnv exampleHybrid exampleLive exampleHandler r h' "''deep_1''" "''hybrid_1''" r2 h2]
      c' s by simp_all
  then show ?thesis
    using c' s cd cl sd sl by (simp add: exampleDeep_def exampleLive_def)
qed

section \<open>Properties of the session manager\<close>

lemma map_of_replace_other:
  "k' \<noteq> k \<Longrightarrow> map_of (map (\<lambda>(a, b). if a = k then (a, v) else (a, b)) m) k' = map_of m k'"
  by (induction m) auto

lemma map_of_replace_same:
  "k \<in> fst ` set m \<Longrightarrow> map_of (map (\<lambda>(a, b). if a = k then (a, v) else (a, b)) m) k = Some v"
  by (induction m) auto

lemma map_of_mapSet: "map_of (mapSet k v m) k' = (if k' = k then Some v else map_of m k')"
proof (cases "k \<in> fst ` set m")
  case True
  then show ?thesis
    by (simp add: mapSet_def map_of_replace_other map_of_replace_same)
next
  case False
  then have "map_of m k = None"
    by (simp add: map_of_eq_None_iff)
  then show ?thesis using False by (auto simp: mapSet_def map_add_def split: option.splits)
qed

lemma map_of_mapDelete: "map_of (mapDelete k m) k' = (if k' = k then None else map_of m k')"
  by (induction m) (auto simp: mapDelete_def)

lemma set_mapDelete: "set (mapDelete k m) \<subseteq> set m"
  by (auto simp: mapDelete_def)

lemma saveSessionState_keeps:
  "sessions (saveSessionState e x s) = sessions s"
  "messageBuffer (saveSessionState e x s) = messageBuffer s"
  "storedChunks (saveSessionState e x s) = storedChunks s"
  "maxBufferSize (saveSessionState e x s) = maxBufferSize s"
  "isInitialized (saveSessionState e x s) = isInitialized s"
  by (simp_all add: saveSessionState_def)

lemma handle_one_below:
  assumes "feeding s tabId b" "Suc (length b) < maxBufferSize s"
  shows "feeding (handleLiveScanData e (oneFragment f) tabId s) tabId (b @ [f])
     \<and> storedChunks (handleLiveScanData e (oneFragment f) tabId s) = storedChunks s
     \<and> maxBufferSize (handleLiveScanData e (oneFragment f) tabId s) = maxBufferSize s"
  using assms
  by (auto simp: feeding_def handleLiveScanData_def bufferMessages_def oneFragment_def Let_def
      map_of_mapSet saveSessionState_keeps)

lemma handle_one_flush:
  assumes "feeding s tabId b" "maxBufferSize s \<le> Suc (length b)"
  shows "feeding (handleLiveScanData e (oneFragment f) tabId s) tabId []
     \<and> map chunk_messages (storedChunks (handleLiveScanData e (oneFragment f) tabId s))
          = map chunk_messages (storedChunks s) @ [b @ [f]]
     \<and> maxBufferSize (handleLiveScanData e (oneFragment f) tabId s) = maxBufferSize s"
  using assms
  by (auto simp: feeding_def handleLiveScanData_def bufferMessages_def oneFragment_def Let_def
      map_of_mapSet saveSessionState_keeps flushBuffer_def)

lemma bufferOneByOne_append:
  "bufferOneByOne (xs @ ys) tabId s = bufferOneByOne ys tabId (bufferOneByOne xs tabId s)"
  by (simp add: bufferOneByOne_def)

lemma bufferOneByOne_single:
  "bufferOneByOne [(e, f)] tabId s = handleLiveScanData e (oneFragment f) tabId s"
  by (simp add: bufferOneByOne_def)

lemma bufferOneByOne_below:
  assumes "feeding s tabId b" "length b + length efs < maxBufferSize s"
  shows "feeding (bufferOneByOne efs tabId s) tabId (b @ map snd efs)
     \<and> storedChunks (bufferOneByOne efs tabId s) = storedChunks s
     \<and> maxBufferSize (bufferOneByOne efs tabId s) = maxBufferSize s"
  using assms
proof (induction efs arbitrary: s b)
  case Nil
  then show ?case by (simp add: bufferOneByOne_def)
next
  case (Cons ef efs)
  obtain e f where ef: "ef = (e, f)" by (cases ef)
  let ?s1 = "handleLiveScanData e (oneFragment f) tabId s"
  have one: "feeding ?s1 tabId (b @ [f]) \<and> storedChunks ?s1 = storedChunks s
      \<and> maxBufferSize ?s1 = maxBufferSize s"
    using Cons.prems by (intro handle_one_below) simp_all
  have "feeding (bufferOneByOne efs tabId ?s1) tabId ((b @ [f]) @ map snd efs)
     \<and> storedChunks (bufferOneByOne efs tabId ?s1) = storedChunks ?s1
     \<and> maxBufferSize (bufferOneByOne efs tabId ?s1) = maxBufferSize ?s1"
    using one Cons.prems(2) by (intro Cons.IH) simp_all
  moreover have "bufferOneByOne (ef # efs) tabId s = bufferOneByOne efs tabId ?s1"
    by (simp add: bufferOneByOne_def ef)
  ultimately show ?case
    using one by (simp add: ef)
qed

lemma startMonitoring_ok:
  assumes "isInitialized s" "le_tabReply e = Response True err"
  shows "fst (startMonitoring e t s) = Inr \<lparr> sr_success = True, sr_sessionId = createSession e \<rparr>
     \<and> feeding (snd (startMonitoring e t s)) (tab_id t) []
     \<and> storedChunks (snd (startMonitoring e t s)) = storedChunks s
     \<and> maxBufferSize (snd (startMonitoring e t s)) = maxBufferSize s"
  using assms
  by (simp add: startMonitoring_def feeding_def map_of_mapSet)

lemma stopMonitoring_flushes_rest:
  assumes "feeding s tabId b" "b \<noteq> []" "tab_id t = tabId" "\<forall>msg. le_tabReply e \<noteq> LastError msg"
  shows "fst (stopMonitoring e t s) = Inr \<lparr> success = True \<rparr>
     \<and> map chunk_messages (storedChunks (snd (stopMonitoring e t s)))
          = map chunk_messages (storedChunks s) @ [b]
     \<and> map_of (sessions (snd (stopMonitoring e t s))) tabId = None"
  using assms
  by (auto simp: stopMonitoring_def feeding_def cleanupSession_def flushBuffer_def
      saveSessionState_def Let_def map_of_mapDelete split: tabReply.splits)

text \<open>
  Claim C6. Start a live session on a tab of an initialised manager whose maximum buffer
  size is the configured 50, buffer 51 fragments one at a time, then stop the session
  (both messages to the tab being answered). Exactly two chunks are flushed: none during
  the first 49 fragments, one with the first 50 fragments when the buffer length reaches
  50, and one with the remaining fragment when the session is stopped.
\<close>

theorem fifty_one_fragments_two_flushes:
  assumes "isInitialized s0" "maxBufferSize s0 = 50"
    and "le_tabReply e0 = Response True err"
    and "length efs = 51"
    and "\<forall>msg. le_tabReply e1 \<noteq> LastError msg"
    and "s1 = snd (startMonitoring e0 t s0)"
    and "s2 = bufferOneByOne efs (tab_id t) s1"
    and "s3 = snd (stopMonitoring e1 t s2)"
  shows "fst (startMonitoring e0 t s0) = Inr \<lparr> sr_success = True, sr_sessionId = createSession e0 \<rparr>
     \<and> storedChunks (bufferOneByOne (take 49 efs) (tab_id t) s1) = storedChunks s0
     \<and> map chunk_messages (storedChunks (bufferOneByOne (take 50 efs) (tab_id t) s1))
          = map chunk_messages (storedChunks s0) @ [map snd (take 50 efs)]
     \<and> storedChunks s2 = storedChunks (bufferOneByOne (take 50 efs) (tab_id t) s1)
     \<and> fst (stopMonitoring e1 t s2) = Inr \<lparr> success = True \<rparr>
     \<and> map chunk_messages (storedChunks s3)
          = map chunk_messages (storedChunks s0) @ [map snd (take 50 efs), map snd (drop 50 efs)]
     \<and> length (storedChunks s3) = length (storedChunks s0) + 2"
proof -
  let ?tid = "tab_id t"
  obtain e49 f49 where x49: "efs ! 49 = (e49, f49)" by (cases "efs ! 49")
  obtain e50 f50 where x50: "efs ! 50 = (e50, f50)" by (cases "efs ! 50")
  have n50: "(50::nat) = Suc 49" and n51: "(51::nat) = Suc 50" by simp_all
  have "take (Suc 49) efs = take 49 efs @ [efs ! 49]"
    using assms(4) by (intro take_Suc_conv_app_nth) simp
  then have t50: "take 50 efs = take 49 efs @ [(e49, f49)]"
    by (simp only: n50 x49)
  have "efs ! 50 # drop (Suc 50) efs = drop 50 efs"
    using assms(4) by (intro Cons_nth_drop_Suc) simp
  moreover have "drop (Suc 50) efs = []"
    using assms(4) by (simp only: n51 [symmetric]) simp
  ultimately have d50: "drop 50 efs = [(e50, f50)]"
    by (simp add: x50)
  have split: "efs = take 50 efs @ [(e50, f50)]"
    using d50 by (metis append_take_drop_id)
  have st: "fst (startMonitoring e0 t s0) = Inr \<lparr> sr_success = True, sr_sessionId = createSession e0 \<rparr>
     \<and> feeding s1 ?tid [] \<and> storedChunks s1 = storedChunks s0 \<and> maxBufferSize s1 = maxBufferSize s0"
    unfolding assms(6) using assms(1,3) by (rule startMonitoring_ok)
  let ?a = "bufferOneByOne (take 49 efs) ?tid s1"
  have a: "feeding ?a ?tid ([] @ map snd (take 49 efs)) \<and> storedChunks ?a = storedChunks s1
      \<and> maxBufferSize ?a = maxBufferSize s1"
    using st assms(2,4) by (intro bufferOneByOne_below) simp_all
  let ?b = "bufferOneByOne (take 50 efs) ?tid s1"
  have b_eq: "?b = handleLiveScanData e49 (oneFragment f49) ?tid ?a"
    by (simp add: t50 bufferOneByOne_append bufferOneByOne_single)
  have b: "feeding ?b ?tid []
     \<and> map chunk_messages (storedChunks ?b) = map chunk_messages (storedChunks ?a) @ [map snd (take 49 efs) @ [f49]]
     \<and> maxBufferSize ?b = maxBufferSize ?a"
    unfolding b_eq using a st assms(2,4) by (intro handle_one_flush) simp_all
  have s2_eq: "s2 = handleLiveScanData e50 (oneFragment f50) ?tid ?b"
    unfolding assms(7) by (subst split) (simp add: bufferOneByOne_append bufferOneByOne_single)
  have c: "feeding s2 ?tid ([] @ [f50]) \<and> storedChunks s2 = storedChunks ?b
     \<and> maxBufferSize s2 = maxBufferSize ?b"
    unfolding s2_eq using b a st assms(2) by (intro handle_one_below) simp_all
  have d: "fst (stopMonitoring e1 t s2) = Inr \<lparr> success = True \<rparr>
     \<and> map chunk_messages (storedChunks (snd (stopMonitoring e1 t s2)))
          = map chunk_messages (storedChunks s2) @ [ [f50] ]
     \<and> map_of (sessions (snd (stopMonitoring e1 t s2))) ?tid = None"
    using c assms(5) by (intro stopMonitoring_flushes_rest) simp_all
  have m50: "map snd (take 50 efs) = map snd (take 49 efs) @ [f49]"
    by (simp add: t50)
  have chunks3: "map chunk_messages (storedChunks s3)
          = map chunk_messages (storedChunks s0) @ [map snd (take 50 efs), map snd (drop 50 efs)]"
    using d c b a st by (simp add: assms(8) m50 d50)
  have "length (map chunk_messages (storedChunks s3)) = length (map chunk_messages (storedChunks s0)) + 2"
    unfolding chunks3 by simp
  then have len: "length (storedChunks s3) = length (storedChunks s0) + 2"
    by simp
  show ?thesis
    using st a b c d chunks3 len by (simp add: m50)
qed

lemma set_mapSet: "set (mapSet k v m) \<subseteq> insert (k, v) (set m)"
  by (auto simp: mapSet_def split: if_splits)

lemma flushBuffer_keeps:
  "sessions (flushBuffer e k s) = sessions s"
  "savedSessions (flushBuffer e k s) = savedSessions s"
  "isInitialized (flushBuffer e k s) = isInitialized s"
  by (simp_all add: flushBuffer_def Let_def split: option.splits)

lemma cleanupSession_sessions: "set (sessions (cleanupSession e k s)) \<subseteq> set (sessions s)"
  using set_mapDelete [of k "sessions s"]
  by (auto simp: cleanupSession_def Let_def saveSessionState_def flushBuffer_keeps split: option.splits)

lemma cleanupSession_active:
  "sessionsActive s \<Longrightarrow> sessionsActive (cleanupSession e k s)"
  using cleanupSession_sessions [of e k s] by (auto simp: sessionsActive_def)

lemma cleanupSession_saved:
  assumes "sessionsActive s"
  shows "stoppedFromActive s (cleanupSession e k s)"
  unfolding stoppedFromActive_def
proof (intro allI impI)
  fix tabId x
  assume h: "map_of (savedSessions (cleanupSession e k s)) tabId = Some x
      \<and> map_of (savedSessions s) tabId \<noteq> Some x"
  show "status x = Stopped
     \<and> (\<exists>k y. (k, y) \<in> set (sessions s) \<and> status y = Active \<and> sessionId y = sessionId x)"
  proof (cases "map_of (sessions s) k")
    case None
    then show ?thesis using h by (simp add: cleanupSession_def)
  next
    case (Some y)
    then have mem: "(k, y) \<in> set (sessions s)" by (rule map_of_SomeD)
    then have act: "status y = Active" using assms by (auto simp: sessionsActive_def)
    have "x = y\<lparr>status := Stopped, endTime := None\<rparr>"
      using h Some
      by (auto simp: cleanupSession_def Let_def saveSessionState_def flushBuffer_keeps map_of_mapSet
          split: if_splits)
    then show ?thesis using mem act by auto
  qed
qed

lemma stoppedFromActive_trans:
  assumes "stoppedFromActive s s0" "stoppedFromActive s0 s1" "set (sessions s0) \<subseteq> set (sessions s)"
  shows "stoppedFromActive s s1"
  unfolding stoppedFromActive_def
proof (intro allI impI)
  fix tabId x
  assume h: "map_of (savedSessions s1) tabId = Some x \<and> map_of (savedSessions s) tabId \<noteq> Some x"
  show "status x = Stopped
     \<and> (\<exists>k y. (k, y) \<in> set (sessions s) \<and> status y = Active \<and> sessionId y = sessionId x)"
  proof (cases "map_of (savedSessions s0) tabId = Some x")
    case True
    then show ?thesis using assms(1) h unfolding stoppedFromActive_def by blast
  next
    case False
    then have "status x = Stopped
     \<and> (\<exists>k y. (k, y) \<in> set (sessions s0) \<and> status y = Active \<and> sessionId y = sessionId x)"
      using assms(2) h unfolding stoppedFromActive_def by blast
    then show ?thesis using assms(3) by blast
  qed
qed

lemma stoppedFromActive_refl: "stoppedFromActive s s"
  by (simp add: stoppedFromActive_def)

lemma sweep_invariant:
  assumes "sessionsActive s0" "set (sessions s0) \<subseteq> set (sessions s)" "stoppedFromActive s s0"
  shows "sessionsActive (snd (fold (sweepStep e mx) xs (n, s0)))
     \<and> stoppedFromActive s (snd (fold (sweepStep e mx) xs (n, s0)))"
  using assms
proof (induction xs arbitrary: n s0)
  case Nil
  then show ?case by simp
next
  case (Cons a xs)
  obtain k sess where a: "a = (k, sess)" by (cases a)
  show ?case
  proof (cases "status sess = Active \<and> le_now e - lastActivity sess > mx")
    case False
    then have "sweepStep e mx a (n, s0) = (n, s0)"
      by (auto simp: sweepStep_def a)
    then show ?thesis
      using Cons.IH [OF Cons.prems, of n] by simp
  next
    case True
    let ?s1 = "cleanupSession e k s0"
    have step: "sweepStep e mx a (n, s0) = (n + 1, ?s1)"
      using True by (simp add: sweepStep_def a)
    have 1: "sessionsActive ?s1"
      using Cons.prems(1) by (rule cleanupSession_active)
    have 2: "set (sessions ?s1) \<subseteq> set (sessions s)"
      using cleanupSession_sessions [of e k s0] Cons.prems(2) by blast
    have 3: "stoppedFromActive s ?s1"
      using Cons.prems(3) cleanupSession_saved [OF Cons.prems(1)] Cons.prems(2)
      by (rule stoppedFromActive_trans)
    show ?thesis
      using Cons.IH [OF 1 2 3, of "n + 1"] step by simp
  qed
qed

lemma cleanupInactiveSessions_lifecycle:
  assumes "sessionsActive s"
  shows "sessionsActive (snd (cleanupInactiveSessions e mx s))
     \<and> stoppedFromActive s (snd (cleanupInactiveSessions e mx s))"
  unfolding cleanupInactiveSessions_def
  using assms by (intro sweep_invariant) (simp_all add: stoppedFromActive_refl)

lemma terminalFromActive_refl: "terminalFromActive s s"
  unfolding terminalFromActive_def by blast

lemma restore_invariant:
  assumes "set xs \<subseteq> set (savedSessions s)" "sessionsActive s0" "expiredFromActive s s0"
  shows "sessionsActive (fold (restoreStep e) xs s0) \<and> expiredFromActive s (fold (restoreStep e) xs s0)"
  using assms
proof (induction xs arbitrary: s0)
  case Nil
  then show ?case by simp
next
  case (Cons a xs)
  obtain k y where a: "a = (k, y)" by (cases a)
  have mem: "(k, y) \<in> set (savedSessions s)" using Cons.prems(1) a by simp
  let ?s1 = "restoreStep e a s0"
  have 1: "sessionsActive ?s1"
    using Cons.prems(2) set_mapSet [of k y "sessions s0"]
    by (auto simp: restoreStep_def a sessionsActive_def)
  have 2: "expiredFromActive s ?s1"
    unfolding expiredFromActive_def
  proof (intro allI impI)
    fix tabId x
    assume h: "map_of (savedSessions ?s1) tabId = Some x \<and> map_of (savedSessions s) tabId \<noteq> Some x"
    show "status x = Expired
        \<and> (\<exists>k y. (k, y) \<in> set (savedSessions s) \<and> status y = Active \<and> sessionId y = sessionId x)"
    proof (cases "map_of (savedSessions s0) tabId = Some x")
      case True
      then show ?thesis using Cons.prems(3) h unfolding expiredFromActive_def by blast
    next
      case False
      then have "x = y\<lparr>status := Expired\<rparr> \<and> status y = Active"
        using h by (auto simp: restoreStep_def a map_of_mapSet split: if_splits)
      then show ?thesis using mem by auto
    qed
  qed
  have "set xs \<subseteq> set (savedSessions s)" using Cons.prems(1) by simp
  then show ?case
    using Cons.IH [OF _ 1 2] by simp
qed

lemma lsm_init_lifecycle:
  assumes "sessionsActive s"
  shows "sessionsActive (lsm_init e s) \<and> expiredFromActive s (lsm_init e s)"
proof -
  have r: "expiredFromActive s s" by (simp add: expiredFromActive_def)
  have "sessionsActive (fold (restoreStep e) (savedSessions s) s)
      \<and> expiredFromActive s (fold (restoreStep e) (savedSessions s) s)"
    using assms r by (intro restore_invariant) simp_all
  then show ?thesis
    using assms r
    by (auto simp: lsm_init_def restoreSessions_def sessionsActive_def expiredFromActive_def)
qed

lemma bufferMessages_keeps:
  "sessions (bufferMessages e k d s) = sessions s"
  "savedSessions (bufferMessages e k d s) = savedSessions s"
  by (simp_all add: bufferMessages_def Let_def flushBuffer_keeps)

lemma handleLiveScanData_lifecycle:
  assumes "sessionsActive s"
  shows "sessionsActive (handleLiveScanData e d k s) \<and> terminalFromActive s (handleLiveScanData e d k s)"
proof (cases "isInitialized s \<and> (\<exists>x. map_of (sessions s) k = Some x \<and> status x = Active)")
  case False
  then have "handleLiveScanData e d k s = s"
    by (auto simp: handleLiveScanData_def split: option.splits)
  then show ?thesis using assms by (simp add: terminalFromActive_refl)
next
  case True
  then obtain x where x: "map_of (sessions s) k = Some x" "status x = Active" by blast
  let ?x1 = "x\<lparr>lastActivity := le_now e,
        messageCount := messageCount x + (case lsd_messages d of None \<Rightarrow> 0 | Some ms \<Rightarrow> length ms)\<rparr>"
  have ses: "sessions (handleLiveScanData e d k s) = mapSet k ?x1 (sessions s)"
    using True x
    by (simp add: handleLiveScanData_def Let_def bufferMessages_keeps saveSessionState_def)
  have sav: "savedSessions (handleLiveScanData e d k s) = savedSessions s
      \<or> savedSessions (handleLiveScanData e d k s)
          = mapSet (tab_id (sessionTab ?x1)) (?x1\<lparr>endTime := None\<rparr>) (savedSessions s)"
    using True x
    by (simp add: handleLiveScanData_def Let_def bufferMessages_keeps saveSessionState_def)
  have 1: "sessionsActive (handleLiveScanData e d k s)"
    using assms x set_mapSet [of k ?x1 "sessions s"]
    unfolding ses sessionsActive_def by auto
  have 2: "terminalFromActive s (handleLiveScanData e d k s)"
    using sav x by (auto simp: terminalFromActive_def map_of_mapSet split: if_splits)
  show ?thesis using 1 2 by simp
qed

lemma terminal_of_stopped: "stoppedFromActive s s' \<Longrightarrow> terminalFromActive s s'"
  unfolding stoppedFromActive_def terminalFromActive_def by blast

lemma terminal_of_expired: "expiredFromActive s s' \<Longrightarrow> terminalFromActive s s'"
  unfolding expiredFromActive_def terminalFromActive_def by blast

lemma liveStep_lifecycle:
  assumes "sessionsActive s"
  shows "sessionsActive (liveStep c s) \<and> terminalFromActive s (liveStep c s)"
proof (cases c)
  case (Pair e k)
  show ?thesis
  proof (cases k)
    case (Start t)
    have cl: "sessionsActive (cleanupSession e (tab_id t) s)
        \<and> terminalFromActive s (cleanupSession e (tab_id t) s)"
      using assms cleanupSession_active cleanupSession_saved terminal_of_stopped by blast
    have same: "terminalFromActive s s" by (rule terminalFromActive_refl)
    have ok: "sessionsActive (s\<lparr>sessions := mapSet (tab_id t) x (sessions s), messageBuffer := b\<rparr>)
        \<and> terminalFromActive s (s\<lparr>sessions := mapSet (tab_id t) x (sessions s), messageBuffer := b\<rparr>)"
      if "status x = Active" for x b
      using that assms set_mapSet [of "tab_id t" x "sessions s"]
      by (auto simp: sessionsActive_def terminalFromActive_def)
    show ?thesis
      using Pair Start assms cl same ok
      by (auto simp: startMonitoring_def split: tabReply.splits)
  next
    case (Stop t)
    have cl: "sessionsActive (cleanupSession e (tab_id t) s)
        \<and> terminalFromActive s (cleanupSession e (tab_id t) s)"
      using assms cleanupSession_active cleanupSession_saved terminal_of_stopped by blast
    have same: "terminalFromActive s s" by (rule terminalFromActive_refl)
    show ?thesis
      using Pair Stop assms cl same
      by (auto simp: stopMonitoring_def split: tabReply.splits)
  next
    case (LiveData d tabId)
    then show ?thesis
      using Pair assms handleLiveScanData_lifecycle by simp
  next
    case (Sweep mx)
    then show ?thesis
      using Pair assms cleanupInactiveSessions_lifecycle terminal_of_stopped by simp
  next
    case InitManager
    then show ?thesis
      using Pair assms lsm_init_lifecycle terminal_of_expired by simp
  qed
qed

lemma stop_twice:
  assumes "isInitialized s" "\<forall>msg. le_tabReply e1 \<noteq> LastError msg" "\<forall>msg. le_tabReply e2 \<noteq> LastError msg"
  shows "stopMonitoring e2 t (snd (stopMonitoring e1 t s))
      = (Inr \<lparr> success = True \<rparr>, snd (stopMonitoring e1 t s))"
proof -
  let ?s1 = "cleanupSession e1 (tab_id t) s"
  have s1: "snd (stopMonitoring e1 t s) = ?s1"
    using assms(1,2) by (auto simp: stopMonitoring_def split: tabReply.splits)
  have gone: "map_of (sessions ?s1) (tab_id t) = None"
    by (auto simp: cleanupSession_def Let_def map_of_mapDelete split: option.splits)
  have ini: "isInitialized ?s1"
    using assms(1)
    by (auto simp: cleanupSession_def Let_def saveSessionState_def flushBuffer_keeps split: option.splits)
  have "cleanupSession e2 (tab_id t) ?s1 = ?s1"
    using gone by (simp add: cleanupSession_def)
  then show ?thesis
    unfolding s1 using ini assms(3) by (auto simp: stopMonitoring_def split: tabReply.splits)
qed

lemma length_fragments51: "length fragments51 = 51"
  by (simp add: fragments51_def)

theorem fifty_one_fragments_two_flushes_witness:
  "map (\<lambda>c. length (chunk_messages c))
     (storedChunks (snd (stopMonitoring (okEnv 1700000100000) tab7
        (bufferOneByOne fragments51 (tab_id tab7)
           (snd (startMonitoring (okEnv 1700000000000) tab7 freshLiveManager))))))
   = [50, 1]"
proof -
  let ?s1 = "snd (startMonitoring (okEnv 1700000000000) tab7 freshLiveManager)"
  let ?s2 = "bufferOneByOne fragments51 (tab_id tab7) ?s1"
  let ?s3 = "snd (stopMonitoring (okEnv 1700000100000) tab7 ?s2)"
  have "map chunk_messages (storedChunks ?s3)
      = map chunk_messages (storedChunks freshLiveManager)
          @ [map snd (take 50 fragments51), map snd (drop 50 fragments51)]"
    using fifty_one_fragments_two_flushes
      [of freshLiveManager "okEnv 1700000000000" None fragments51 "okEnv 1700000100000"
          ?s1 tab7 ?s2 ?s3]
      length_fragments51
    by (simp add: freshLiveManager_def okEnv_def)
  then have "map (\<lambda>c. length (chunk_messages c)) (storedChunks ?s3)
      = map length ([] @ [map snd (take 50 fragments51), map snd (drop 50 fragments51)])"
    by (simp add: freshLiveManager_def flip: map_map [of length chunk_messages, unfolded comp_def])
  then show ?thesis
    using length_fragments51 by simp
qed

text \<open>
  Claim C7, as amended. Calling stop on a session that has already been stopped leaves the
  session manager as it is and returns \<open>{success: true}\<close> (the message to the tab being
  answered). Session state transitions never skip \<open>ACTIVE\<close>: every session held by the
  manager is active, and a call (start, stop, incoming data, inactivity sweep,
  initialisation) saves a record with a terminal status only for a session that was
  active before the call: \<open>stopped\<close> for an active session of the manager, \<open>expired\<close> for
  a saved active session.
\<close>

theorem stop_after_stop_and_lifecycle:
  "(isInitialized s \<and> (\<forall>msg. le_tabReply e1 \<noteq> LastError msg)
      \<and> (\<forall>msg. le_tabReply e2 \<noteq> LastError msg) \<longrightarrow>
      stopMonitoring e2 t (snd (stopMonitoring e1 t s))
        = (Inr \<lparr> success = True \<rparr>, snd (stopMonitoring e1 t s)))
   \<and> fst (stopLiveScan t2 (snd (stopLiveScan t1 cs))) = \<lparr> success = True \<rparr>
   \<and> (sessionsActive s \<longrightarrow>
        sessionsActive (liveStep c s) \<and> terminalFromActive s (liveStep c s))"
  using stop_twice liveStep_lifecycle
  by (simp add: stopLiveScan_def)

lemma startedManager_eq:
  "startedManager =
     \<lparr> sessions = [(7, \<lparr> sessionId = createSession (okEnv 1700000000000),
                         startTime = 1700000000000, sessionTab = tab7, messageCount = 0,
                         lastActivity = 1700000000000, status = Active, endTime = None \<rparr>)],
       messageBuffer = [(7, [])], isInitialized = True, maxBufferSize = 50,
       storedChunks = [], savedSessions = [] \<rparr>"
  by (simp add: startedManager_def startMonitoring_def freshLiveManager_def okEnv_def tab7_def
      mapSet_def)

lemma stopped_once:
  "snd (stopMonitoring (okEnv 1700000100000) tab7 startedManager) =
     \<lparr> sessions = [], messageBuffer = [], isInitialized = True, maxBufferSize = 50,
       storedChunks = [],
       savedSessions = [(7, \<lparr> sessionId = createSession (okEnv 1700000000000),
                         startTime = 1700000000000, sessionTab = tab7, messageCount = 0,
                         lastActivity = 1700000000000, status = Stopped, endTime = None \<rparr>)] \<rparr>"
  by (simp add: startedManager_eq stopMonitoring_def cleanupSession_def flushBuffer_def
      saveSessionState_def Let_def mapSet_def mapDelete_def okEnv_def tab7_def)

theorem stop_after_stop_and_lifecycle_witness:
  "stopMonitoring (okEnv 1700000200000) tab7 (snd (stopMonitoring (okEnv 1700000100000) tab7 startedManager))
     = (Inr \<lparr> success = True \<rparr>, snd (stopMonitoring (okEnv 1700000100000) tab7 startedManager))
   \<and> sessionsActive startedManager
   \<and> sessionsActive (liveStep (okEnv 1700000100000, Stop tab7) startedManager)
   \<and> terminalFromActive startedManager (liveStep (okEnv 1700000100000, Stop tab7) startedManager)
   \<and> map (\<lambda>(k, x). status x) (savedSessions (liveStep (okEnv 1700000100000, Stop tab7) startedManager))
       = [Stopped]"
proof -
  have a: "sessionsActive startedManager"
    by (simp add: startedManager_eq sessionsActive_def)
  have i: "isInitialized startedManager"
    by (simp add: startedManager_eq)
  have r: "\<forall>msg. le_tabReply (okEnv t) \<noteq> LastError msg" for t
    by (simp add: okEnv_def)
  show ?thesis
    using stop_after_stop_and_lifecycle
      [of startedManager "okEnv 1700000100000" "okEnv 1700000200000" tab7
          1700000200000 1700000100000 activeScript "(okEnv 1700000100000, Stop tab7)"]
      a i r
    by (simp add: stopped_once)
qed

text \<open>The claim as stated fails: the second stop of a stopped session returns
  \<open>{success: true}\<close>, in the session manager and in the content script.\<close>

theorem stop_after_stop_counterexample:
  "fst (stopMonitoring (okEnv 1700000200000) tab7
          (snd (stopMonitoring (okEnv 1700000100000) tab7 startedManager)))
     = Inr \<lparr> success = True \<rparr>
   \<and> fst (stopMonitoring (okEnv 1700000200000) tab7
          (snd (stopMonitoring (okEnv 1700000100000) tab7 startedManager)))
     \<noteq> Inr \<lparr> success = False \<rparr>
   \<and> fst (stopLiveScan 1700000200000 (snd (stopLiveScan 1700000100000 activeScript)))
     = \<lparr> success = True \<rparr>"
proof -
  have i: "isInitialized startedManager"
    by (simp add: startedManager_eq)
  have r: "\<forall>msg. le_tabReply (okEnv t) \<noteq> LastError msg" for t
    by (simp add: okEnv_def)
  show ?thesis
    using stop_twice [where s = startedManager and t = tab7
        and ?e1.0 = "okEnv 1700000100000" and ?e2.0 = "okEnv 1700000200000"] i r
    by (simp add: stopLiveScan_def)
qed

section \<open>Properties of the deep scan\<close>

lemma sum_list_indicator: "sum_list (map (\<lambda>x. if P x then 1 else 0) xs) = length (filter P xs)"
  by (induction xs) auto

lemma count_by_selector_or_element:
  "sum_list (map (\<lambda>sel. length (filter Q (filter (M sel) els))) sels)
     = sum_list (map (\<lambda>el. if Q el then length (filter (\<lambda>sel. M sel el) sels) else 0) els)"
proof (induction els)
  case Nil
  then show ?case by simp
next
  case (Cons a els)
  have "sum_list (map (\<lambda>sel. length (filter Q (filter (M sel) (a # els)))) sels)
      = sum_list (map (\<lambda>sel. (if M sel a \<and> Q a then 1 else 0)
                              + length (filter Q (filter (M sel) els))) sels)"
    by (rule arg_cong [where f = sum_list]) auto
  also have "\<dots> = sum_list (map (\<lambda>sel. if M sel a \<and> Q a then 1 else 0) sels)
      + sum_list (map (\<lambda>sel. length (filter Q (filter (M sel) els))) sels)"
    by (simp add: sum_list_addf)
  also have "sum_list (map (\<lambda>sel. if M sel a \<and> Q a then 1 else 0) sels)
      = length (filter (\<lambda>sel. M sel a \<and> Q a) sels)"
    by (rule sum_list_indicator)
  also have "length (filter (\<lambda>sel. M sel a \<and> Q a) sels)
      = (if Q a then length (filter (\<lambda>sel. M sel a) sels) else 0)"
    by simp
  finally show ?case
    using Cons.IH by simp
qed

lemma length_extractMessages:
  "length (extractMessages p)
     = min 1000 (sum_list (map (\<lambda>el. if extractable el then matchCount el else 0) (pg_elements p)))"
proof -
  have "length (concat (map (\<lambda>sel. map (messageOf sel) (filter extractable (querySelectorAll p sel)))
                            messageSelectors))
      = sum_list (map (\<lambda>sel. length (filter extractable (filter (matches sel) (pg_elements p))))
                      messageSelectors)"
    by (simp add: length_concat querySelectorAll_def comp_def)
  also have "\<dots> = sum_list (map (\<lambda>el. if extractable el then matchCount el else 0) (pg_elements p))"
    unfolding matchCount_def by (rule count_by_selector_or_element)
  finally show ?thesis
    by (simp add: extractMessages_def min.commute)
qed

lemma single_matches_count:
  assumes "\<forall>el \<in> set els. matchCount el \<le> 1"
  shows "sum_list (map (\<lambda>el. if extractable el then matchCount el else 0) els)
     = length (filter (\<lambda>el. extractable el \<and> matchCount el = 1) els)"
  using assms
proof (induction els)
  case Nil
  then show ?case by simp
next
  case (Cons a els)
  have "matchCount a = 0 \<or> matchCount a = 1"
    using Cons.prems by (simp add: le_Suc_eq)
  then show ?case
    using Cons by auto
qed

lemma isSpace_simps:
  "\<not> isSpace (CHR ''M'')" "\<not> isSpace (CHR ''0'')" "\<not> isSpace (CHR ''1'')" "\<not> isSpace (CHR ''2'')"
  "\<not> isSpace (CHR ''3'')" "\<not> isSpace (CHR ''4'')" "\<not> isSpace (CHR ''5'')" "\<not> isSpace (CHR ''6'')"
  "\<not> isSpace (CHR ''7'')" "\<not> isSpace (CHR ''8'')" "\<not> isSpace (CHR ''9'')"
  by (simp_all add: isSpace_def charCode_def)


lemma matchCount_role: "matchCount (messageDiv [(''role'', ''listitem'')] i) = 1"
  by (simp add: matchCount_def messageSelectors_def matches_def getAttribute_def messageDiv_def
      classList_def className_def attrEquals_def)


lemma matchCount_class: "matchCount (messageDiv [(''class'', ''message'')] i) = 2"
  by (simp add: matchCount_def messageSelectors_def matches_def getAttribute_def messageDiv_def
      classList_def className_def isAsciiWhitespace_def charCode_def)


lemma trim_id:
  assumes "s \<noteq> []" "\<not> isSpace (hd s)" "\<not> isSpace (last s)"
  shows "trim s = s"
proof -
  obtain x xs where c: "s = x # xs" using assms(1) by (cases s) auto
  then have f: "dropWhile isSpace s = s" using assms(2) by simp
  obtain ys y where r: "s = ys @ [y]" using assms(1) by (cases s rule: rev_cases) auto
  then have "dropWhile isSpace (rev s) = rev s" using assms(3) by simp
  then show ?thesis by (simp add: trim_def f)
qed

lemma extractable_text:
  assumes "styleShown el" "inViewport el" "textContent el = CHR ''M'' # rest"
    and "\<not> isSpace (last (CHR ''M'' # rest))" "2 \<le> length rest"
  shows "extractable el"
proof -
  have "trim (textContent el) = textContent el"
    using assms(3,4) by (intro trim_id) (simp_all add: isSpace_simps)
  then show ?thesis
    using assms by (simp add: extractable_def isElementVisible_def)
qed


lemma messageDiv_sel:
  "styleShown (messageDiv attrs i)" "inViewport (messageDiv attrs i)"
  "textContent (messageDiv attrs i) = CHR ''M'' # ''essage '' @ natToString 10 i"
  "attributes (messageDiv attrs i) = attrs"
  by (simp_all add: messageDiv_def)

lemma extractable_messageDiv:
  "extractable (messageDiv attrs 1)" "extractable (messageDiv attrs 2)"
  "extractable (messageDiv attrs 3)" "extractable (messageDiv attrs 4)"
  "extractable (messageDiv attrs 5)" "extractable (messageDiv attrs 6)"
  "extractable (messageDiv attrs 7)" "extractable (messageDiv attrs 8)"
  "extractable (messageDiv attrs 9)" "extractable (messageDiv attrs 10)"
  "extractable (messageDiv attrs 11)" "extractable (messageDiv attrs 12)"
  by (rule extractable_text [OF messageDiv_sel(1) messageDiv_sel(2) messageDiv_sel(3)];
      simp add: digitChar_def isSpace_def charCode_def)+

text \<open>The decimal rendering of an integer determines the integer.\<close>

lemma digitChar_decimal:
  assumes "d < 10"
  shows "digitChar d \<in> set ''0123456789''" "digitChar d \<noteq> CHR ''-''"
proof -
  have "d \<in> {0, 1, 2, 3, 4, 5, 6, 7, 8, 9}" using assms by auto
  then show "digitChar d \<in> set ''0123456789''" "digitChar d \<noteq> CHR ''-''"
    by (auto simp: digitChar_def)
qed

lemma digitChar_inj_decimal:
  assumes "a < 10" "b < 10" "digitChar a = digitChar b"
  shows "a = b"
proof -
  have "a \<in> {0, 1, 2, 3, 4, 5, 6, 7, 8, 9}" "b \<in> {0, 1, 2, 3, 4, 5, 6, 7, 8, 9}"
    using assms by auto
  then show ?thesis using assms(3) by (auto simp: digitChar_def)
qed

lemma natToString_decimal:
  "natToString 10 n =
     (if n < 10 then [digitChar n] else natToString 10 (n div 10) @ [digitChar (n mod 10)])"
  by (subst natToString.simps) (simp del: natToString.simps)

lemma natToString_nonempty: "natToString 10 n \<noteq> []"
  by (subst natToString_decimal) (simp del: natToString.simps)

lemma decimal_hd: "hd (natToString 10 n) \<noteq> CHR ''-''"
proof (induction n rule: less_induct)
  case (less n)
  show ?case
  proof (cases "n < 10")
    case True
    then show ?thesis
      by (subst natToString_decimal) (simp del: natToString.simps add: digitChar_decimal)
  next
    case False
    then have "natToString 10 n = natToString 10 (n div 10) @ [digitChar (n mod 10)]"
      by (subst natToString_decimal) (simp del: natToString.simps)
    moreover have "hd (natToString 10 (n div 10)) \<noteq> CHR ''-''"
      using False by (intro less.IH) simp
    ultimately show ?thesis
      by (simp del: natToString.simps add: natToString_nonempty)
  qed
qed

lemma decimal_inj: "natToString 10 n = natToString 10 m \<Longrightarrow> n = m"
proof (induction n arbitrary: m rule: less_induct)
  case (less n)
  show ?case
  proof (cases "n < 10")
    case n: True
    then have sn: "natToString 10 n = [digitChar n]"
      by (subst natToString_decimal) (simp del: natToString.simps)
    show ?thesis
    proof (cases "m < 10")
      case True
      then have "natToString 10 m = [digitChar m]"
        by (subst natToString_decimal) (simp del: natToString.simps)
      then show ?thesis
        using n True less.prems sn by (simp del: natToString.simps add: digitChar_inj_decimal)
    next
      case False
      then have "natToString 10 m = natToString 10 (m div 10) @ [digitChar (m mod 10)]"
        by (subst natToString_decimal) (simp del: natToString.simps)
      then have "[digitChar n] = natToString 10 (m div 10) @ [digitChar (m mod 10)]"
        using less.prems sn by (simp del: natToString.simps)
      then have "natToString 10 (m div 10) = []"
        by (simp del: natToString.simps)
      then show ?thesis
        using natToString_nonempty by blast
    qed
  next
    case n: False
    then have sn: "natToString 10 n = natToString 10 (n div 10) @ [digitChar (n mod 10)]"
      by (subst natToString_decimal) (simp del: natToString.simps)
    show ?thesis
    proof (cases "m < 10")
      case True
      then have "natToString 10 m = [digitChar m]"
        by (subst natToString_decimal) (simp del: natToString.simps)
      then have "natToString 10 (n div 10) @ [digitChar (n mod 10)] = [digitChar m]"
        using less.prems sn by (simp del: natToString.simps)
      then have "natToString 10 (n div 10) = []"
        by (simp del: natToString.simps)
      then show ?thesis
        using natToString_nonempty by blast
    next
      case False
      then have "natToString 10 m = natToString 10 (m div 10) @ [digitChar (m mod 10)]"
        by (subst natToString_decimal) (simp del: natToString.simps)
      then have e: "natToString 10 (n div 10) = natToString 10 (m div 10)"
        and d: "digitChar (n mod 10) = digitChar (m mod 10)"
        using less.prems sn by (simp_all del: natToString.simps)
      have "n div 10 = m div 10"
        using n e by (intro less.IH) simp_all
      moreover have "n mod 10 = m mod 10"
        using d by (intro digitChar_inj_decimal) simp_all
      ultimately show ?thesis by (metis div_mult_mod_eq)
    qed
  qed
qed

lemma intToString_decimal_inj: "intToString 10 i = intToString 10 j \<Longrightarrow> i = j"
proof -
  assume a: "intToString 10 i = intToString 10 j"
  consider "i < 0" "j < 0" | "i < 0" "0 \<le> j" | "0 \<le> i" "j < 0" | "0 \<le> i" "0 \<le> j"
    by linarith
  then show ?thesis
  proof cases
    case 1
    then have "natToString 10 (nat (- i)) = natToString 10 (nat (- j))"
      using a by (simp del: natToString.simps add: intToString_def)
    then have "nat (- i) = nat (- j)" by (rule decimal_inj)
    then show ?thesis using 1 by simp
  next
    case 2
    then have "CHR ''-'' # natToString 10 (nat (- i)) = natToString 10 (nat j)"
      using a by (simp del: natToString.simps add: intToString_def)
    then have "hd (natToString 10 (nat j)) = CHR ''-''"
      by (metis list.sel(1))
    then show ?thesis using decimal_hd by blast
  next
    case 3
    then have "natToString 10 (nat i) = CHR ''-'' # natToString 10 (nat (- j))"
      using a by (simp del: natToString.simps add: intToString_def)
    then have "hd (natToString 10 (nat i)) = CHR ''-''"
      by (metis list.sel(1))
    then show ?thesis using decimal_hd by blast
  next
    case 4
    then have "natToString 10 (nat i) = natToString 10 (nat j)"
      using a by (simp del: natToString.simps add: intToString_def)
    then have "nat i = nat j" by (rule decimal_inj)
    then show ?thesis using 4 by simp
  qed
qed

lemma performDeepScan_sel:
  "dr_messageCount (performDeepScan c tab p) = length (extractMessages p)"
  "dr_checksum (performDeepScan c tab p) = generateChecksum (captureDOMSnapshot (atSnapshot c) p)"
  by (simp_all add: performDeepScan_def Let_def)

text \<open>The serialised snapshot is the member \<open>timestamp\<close> followed by text that the page
  alone determines.\<close>

lemma stringify_snapshot:
  "\<exists>body. \<forall>t. stringify (captureDOMSnapshot t p)
      = ''{'' @ quoteString ''timestamp'' @ '':'' @ intToString 10 t @ body"
proof -
  let ?chat = "visibleInfos p chatSelectors"
  let ?input = "visibleInfos p inputSelectors"
  let ?media = "visibleInfos p mediaSelectors"
  let ?rest = "[(''url'', JStr (pg_url p)),
                (''title'', JStr (pg_title p)),
                (''totalElements'', JNum (int (length ?chat + length ?input + length ?media))),
                (''chatElements'', JArr ?chat),
                (''inputElements'', JArr ?input),
                (''mediaElements'', JArr ?media),
                (''structure'', pg_structure p)]"
  let ?body = "'','' @ joinWith '','' (map jsonMember (map (map_prod id stringify) ?rest)) @ ''}''"
  have "stringify (captureDOMSnapshot t p)
      = ''{'' @ quoteString ''timestamp'' @ '':'' @ intToString 10 t @ ?body" for t
    by (simp add: captureDOMSnapshot_def Let_def jsonMember_def)
  then show ?thesis by blast
qed

lemma checksum_of_snapshot:
  "\<exists>body. \<forall>c tab. dr_checksum (performDeepScan c tab p)
      = absToString36 (hashString
          (''{'' @ quoteString ''timestamp'' @ '':'' @ intToString 10 (atSnapshot c) @ body))"
proof -
  obtain body where b: "\<And>t. stringify (captureDOMSnapshot t p)
      = ''{'' @ quoteString ''timestamp'' @ '':'' @ intToString 10 t @ body"
    using stringify_snapshot by blast
  have "dr_checksum (performDeepScan c tab p)
      = absToString36 (hashString
          (''{'' @ quoteString ''timestamp'' @ '':'' @ intToString 10 (atSnapshot c) @ body))" for c tab
    by (simp add: performDeepScan_sel generateChecksum_def Let_def b)
  then show ?thesis by blast
qed

lemma snapshots_equal_iff:
  "(stringify (captureDOMSnapshot t1 p) = stringify (captureDOMSnapshot t2 p)) = (t1 = t2)"
proof -
  obtain body where b: "\<And>t. stringify (captureDOMSnapshot t p)
      = (''{'' @ quoteString ''timestamp'' @ '':'') @ intToString 10 t @ body"
    using stringify_snapshot [of p] by auto
  have "(stringify (captureDOMSnapshot t1 p) = stringify (captureDOMSnapshot t2 p))
      = (intToString 10 t1 = intToString 10 t2)"
    unfolding b by (simp only: same_append_eq append_same_eq)
  then show ?thesis
    using intToString_decimal_inj by blast
qed

text \<open>
  Claim C9, as amended. The checksum of a deep scan is the hash of the serialised
  snapshot, which starts with the clock value read for the snapshot and continues with
  text that the page alone determines. So two scans of an unmodified page produce the same
  checksum when their snapshots are taken at the same clock value, whatever their tabs,
  start and end times are; and the texts they hash are equal only then. When no element
  of the page is matched by more than one of the seven message selectors, the
  \<open>messageCount\<close> of a scan is the number of extractable elements (visible, trimmed
  text longer than two characters) that a message selector matches, capped at 1000: it is
  12 on a page with 12 of them.
\<close>

theorem deep_scan_checksum_and_count:
  "(atSnapshot c1 = atSnapshot c2 \<longrightarrow>
      dr_checksum (performDeepScan c1 tab1 p) = dr_checksum (performDeepScan c2 tab2 p))
   \<and> (\<exists>body. \<forall>c tab. dr_checksum (performDeepScan c tab p)
          = absToString36 (hashString
              (''{'' @ quoteString ''timestamp'' @ '':'' @ intToString 10 (atSnapshot c) @ body)))
   \<and> ((stringify (captureDOMSnapshot (atSnapshot c1) p)
          = stringify (captureDOMSnapshot (atSnapshot c2) p)) = (atSnapshot c1 = atSnapshot c2))
   \<and> ((\<forall>el \<in> set (pg_elements p). matchCount el \<le> 1) \<longrightarrow>
        dr_messageCount (performDeepScan c1 tab1 p)
          = min 1000 (length (filter (\<lambda>el. extractable el \<and> matchCount el = 1) (pg_elements p))))
   \<and> ((\<forall>el \<in> set (pg_elements p). matchCount el \<le> 1)
        \<and> length (filter (\<lambda>el. extractable el \<and> matchCount el = 1) (pg_elements p)) = 12
       \<longrightarrow> dr_messageCount (performDeepScan c1 tab1 p) = 12)"
proof -
  have 1: "atSnapshot c1 = atSnapshot c2 \<longrightarrow>
      dr_checksum (performDeepScan c1 tab1 p) = dr_checksum (performDeepScan c2 tab2 p)"
    by (simp add: performDeepScan_sel)
  have 2: "dr_messageCount (performDeepScan c1 tab1 p)
          = min 1000 (length (filter (\<lambda>el. extractable el \<and> matchCount el = 1) (pg_elements p)))"
    if "\<forall>el \<in> set (pg_elements p). matchCount el \<le> 1"
    using single_matches_count [OF that]
    by (simp only: performDeepScan_sel length_extractMessages)
  have 3: "dr_messageCount (performDeepScan c1 tab1 p) = 12"
    if "\<forall>el \<in> set (pg_elements p). matchCount el \<le> 1"
      and "length (filter (\<lambda>el. extractable el \<and> matchCount el = 1) (pg_elements p)) = 12"
    using 2 [OF that(1)] that(2) by simp
  show ?thesis
    using 1 2 3 checksum_of_snapshot [of p] snapshots_equal_iff [of "atSnapshot c1" p "atSnapshot c2"]
    by blast
qed

lemma extractable_messageDiv_first: "extractable (messageDiv attrs (Suc 0))"
  using extractable_messageDiv(1) [of attrs] by simp

lemma rolePage_elements:
  "pg_elements rolePage = map (messageDiv [(''role'', ''listitem'')]) [1, 2, 3, 4, 5, 6, 7, 8, 9, 10, 11, 12]"
  by (simp add: rolePage_def)

lemma classPage_elements:
  "pg_elements classPage = map (messageDiv [(''class'', ''message'')]) [1, 2, 3, 4, 5, 6, 7, 8, 9, 10, 11, 12]"
  by (simp add: classPage_def)

lemma classPage_count: "length (extractMessages classPage) = 24"
  by (simp add: length_extractMessages classPage_elements matchCount_class extractable_messageDiv extractable_messageDiv_first)

lemma asciiLower_DIV: "asciiLower ''DIV'' = ''div''"
  by code_simp

lemma role_div_no_snapshot_match:
  "list_all (\<lambda>sel. \<not> matches sel (messageDiv [(''role'', ''listitem'')] i))
     (chatSelectors @ inputSelectors @ mediaSelectors)"
  by (simp add: chatSelectors_def inputSelectors_def mediaSelectors_def matches_def
      getAttribute_def messageDiv_def classList_def className_def attrEquals_def asciiLower_DIV)


lemma no_infos:
  assumes "\<forall>el \<in> set (pg_elements p). \<forall>sel \<in> set sels. \<not> matches sel el"
  shows "visibleInfos p sels = []"
  using assms by (auto simp: visibleInfos_def querySelectorAll_def filter_empty_conv)

lemma rolePage_no_match:
  "\<forall>el \<in> set (pg_elements rolePage).
     \<forall>sel \<in> set (chatSelectors @ inputSelectors @ mediaSelectors). \<not> matches sel el"
proof (intro ballI)
  fix el sel
  assume "el \<in> set (pg_elements rolePage)"
    and s: "sel \<in> set (chatSelectors @ inputSelectors @ mediaSelectors)"
  then obtain i where "el = messageDiv [(''role'', ''listitem'')] i"
    unfolding rolePage_elements by auto
  then show "\<not> matches sel el"
    using role_div_no_snapshot_match [of i] s unfolding list_all_iff by blast
qed

lemma rolePage_infos:
  "visibleInfos rolePage chatSelectors = []"
  "visibleInfos rolePage inputSelectors = []"
  "visibleInfos rolePage mediaSelectors = []"
  using rolePage_no_match by (auto intro!: no_infos)

lemma rolePage_snapshot:
  "captureDOMSnapshot t rolePage =
     JObj [(''timestamp'', JNum t), (''url'', JStr ''https://chat.example/c/1''),
           (''title'', JStr ''Chat''), (''totalElements'', JNum 0),
           (''chatElements'', JArr []), (''inputElements'', JArr []), (''mediaElements'', JArr []),
           (''structure'', emptyStructure)]"
  by (simp add: captureDOMSnapshot_def rolePage_infos) (simp add: rolePage_def)


lemma rolePage_hash_0:
  "hashString (stringify (captureDOMSnapshot 1700000000000 rolePage)) = 2585775298"
  by (simp add: rolePage_snapshot emptyStructure_def jsonMember_def quoteString_def escapeChar_def
      charCode_def intToString_def digitChar_def hashString_def hashStep_def)


lemma rolePage_hash_1:
  "hashString (stringify (captureDOMSnapshot 1700000000001 rolePage)) = 3851846083"
  by (simp add: rolePage_snapshot emptyStructure_def jsonMember_def quoteString_def escapeChar_def
      charCode_def intToString_def digitChar_def hashString_def hashStep_def)

lemma stringify_snapshot_nonempty: "stringify (captureDOMSnapshot t rolePage) \<noteq> []"
  by (simp add: rolePage_snapshot)

lemma abs36_0: "absToString36 (2585775298 :: 32 word) = ''s9lwzi''"
  by (simp add: absToString36_def digitChar_def)

lemma abs36_1: "absToString36 (3851846083 :: 32 word) = ''7btmil''"
  by (simp add: absToString36_def digitChar_def)

lemma checksum_rolePage_0:
  "generateChecksum (captureDOMSnapshot 1700000000000 rolePage) = ''s9lwzi''"
  using stringify_snapshot_nonempty [of 1700000000000]
  by (simp add: generateChecksum_def Let_def rolePage_hash_0 abs36_0)

lemma checksum_rolePage_1:
  "generateChecksum (captureDOMSnapshot 1700000000001 rolePage) = ''7btmil''"
  using stringify_snapshot_nonempty [of 1700000000001]
  by (simp add: generateChecksum_def Let_def rolePage_hash_1 abs36_1)

lemma clock_sel:
  "atSnapshot firstClock = 1700000000000" "atSnapshot sameMsClock = 1700000000000"
  "atSnapshot laterClock = 1700000000001"
  by (simp_all add: firstClock_def sameMsClock_def laterClock_def)

theorem deep_scan_checksum_and_count_witness:
  "successiveScans firstClock sameMsClock
   \<and> dr_checksum (performDeepScan firstClock None rolePage) = ''s9lwzi''
   \<and> dr_checksum (performDeepScan sameMsClock (Some exampleTab) rolePage) = ''s9lwzi''
   \<and> dr_messageCount (performDeepScan firstClock None rolePage) = 12"
proof -
  have a: "\<forall>el \<in> set (pg_elements rolePage). matchCount el \<le> 1"
    by (simp add: rolePage_elements matchCount_role)
  have b: "length (filter (\<lambda>el. extractable el \<and> matchCount el = 1) (pg_elements rolePage)) = 12"
    by (simp add: rolePage_elements matchCount_role extractable_messageDiv extractable_messageDiv_first)
  have s: "successiveScans firstClock sameMsClock"
    by (simp add: successiveScans_def firstClock_def sameMsClock_def)
  have c: "dr_checksum (performDeepScan firstClock None rolePage) = ''s9lwzi''"
    by (simp add: performDeepScan_sel clock_sel checksum_rolePage_0)
  have "atSnapshot firstClock = atSnapshot sameMsClock"
    by (simp add: clock_sel)
  then show ?thesis
    using deep_scan_checksum_and_count
      [of firstClock sameMsClock None rolePage "Some exampleTab"] a b c s
    by simp
qed

text \<open>An element whose text is two letters and a no-break space, or no-break spaces only,
  is not extracted: \<open>trim\<close> removes the no-break space.\<close>

lemma nbsp_not_extractable:
  "\<not> extractable (nbspDiv (''ab'' @ [CHR 0xA0]))"
  "\<not> extractable (nbspDiv [CHR 0xA0, CHR 0xA0, CHR 0xA0])"
  by (simp_all add: extractable_def nbspDiv_def trim_def isSpace_def charCode_def)

text \<open>The claim as stated fails: on a page with twelve message elements of class
  \<open>message\<close> the count is 24, each element being found by two selectors; and two scans of
  one unmodified page that follow one another, the second one millisecond later, have
  different checksums.\<close>

theorem deep_scan_counterexample:
  "length (filter extractable (pg_elements classPage)) = 12
   \<and> dr_messageCount (performDeepScan firstClock None classPage) = 24
   \<and> successiveScans firstClock laterClock
   \<and> dr_checksum (performDeepScan firstClock None rolePage) = ''s9lwzi''
   \<and> dr_checksum (performDeepScan laterClock None rolePage) = ''7btmil''
   \<and> dr_checksum (performDeepScan firstClock None rolePage)
       \<noteq> dr_checksum (performDeepScan laterClock None rolePage)"
proof -
  have n: "length (filter extractable (pg_elements classPage)) = 12"
    by (simp add: classPage_elements extractable_messageDiv extractable_messageDiv_first)
  have s: "successiveScans firstClock laterClock"
    by (simp add: successiveScans_def firstClock_def laterClock_def)
  show ?thesis
    using n s
    by (simp add: performDeepScan_sel classPage_count clock_sel checksum_rolePage_0
        checksum_rolePage_1)
qed

end
